theory Spec2Isabelle
  imports Main "HOL-Library.Word"
begin

unbundle bit_operations_syntax

section \<open>raspi2raspi: constants and C arithmetic\<close>

text \<open>
  The program is one C file, \<^verbatim>\<open>raspi2raspi.c\<close>: a \<^verbatim>\<open>main\<close> that parses its
  options, optionally becomes a daemon, opens two DispmanX displays and copies one to the
  other in a loop paced by \<^verbatim>\<open>usleep\<close>.  Calls into the C library and into the
  vendor library are modelled as events of a trace, their results being supplied by a
  record that describes one run of the machine (\<open>world\<close> below).
\<close>

definition DEFAULT_SOURCE_DISPLAY_NUMBER :: int where
  "DEFAULT_SOURCE_DISPLAY_NUMBER = 0"

definition DEFAULT_DESTINATION_DISPLAY_NUMBER :: int where
  "DEFAULT_DESTINATION_DISPLAY_NUMBER = 5"

definition DEFAULT_FPS :: int where
  "DEFAULT_FPS = 10"

definition EXIT_SUCCESS :: int where
  "EXIT_SUCCESS = 0"

definition EXIT_FAILURE :: int where
  "EXIT_FAILURE = 1"

definition SIGINT :: int where
  "SIGINT = 2"

definition SIGTERM :: int where
  "SIGTERM = 15"

text \<open>C's \<^verbatim>\<open>/\<close> on integers truncates towards zero; the divisor is checked by the caller.\<close>

definition c_div :: "int \<Rightarrow> int \<Rightarrow> int" where
  "c_div a b = sgn a * sgn b * (\<bar>a\<bar> div \<bar>b\<bar>)"

text \<open>
  \<^verbatim>\<open>#define ALIGN_TO_16(x) ((x + 15) & ~15)\<close> on a 32-bit \<^verbatim>\<open>int32_t\<close>;
  the word type wraps where the C value would leave the range of the type.
\<close>

definition ALIGN_TO_16 :: "32 word \<Rightarrow> 32 word" where
  "ALIGN_TO_16 x = (x + 15) AND NOT 15"

subsection \<open>The C library's \<^verbatim>\<open>atoi\<close>\<close>

text \<open>
  \<^verbatim>\<open>atoi\<close> skips white space, reads an optional sign and then decimal digits up to
  the first other character; text with no digits gives 0.  A value outside the range of
  \<^verbatim>\<open>int\<close> is undefined in ISO C; glibc on the 32-bit target returns the nearest end
  of the range, which is what \<open>clamp_int\<close> writes out.
\<close>

definition isspace :: "char \<Rightarrow> bool" where
  "isspace ch = (ch = CHR '' '' \<or> (9 \<le> (of_char ch :: nat) \<and> (of_char ch :: nat) \<le> 13))"

definition isdigit :: "char \<Rightarrow> bool" where
  "isdigit ch = (48 \<le> (of_char ch :: nat) \<and> (of_char ch :: nat) \<le> 57)"

fun atoi_digits :: "int \<Rightarrow> string \<Rightarrow> int" where
  "atoi_digits acc [] = acc"
| "atoi_digits acc (ch # rest) =
     (if isdigit ch then atoi_digits (10 * acc + (of_char ch - 48)) rest else acc)"

definition clamp_int :: "int \<Rightarrow> int" where
  "clamp_int v = max (- 2147483648) (min 2147483647 v)"

definition atoi :: "string \<Rightarrow> int" where
  "atoi s =
     (case dropWhile isspace s of
        [] \<Rightarrow> 0
      | ch # rest \<Rightarrow>
          if ch = CHR ''-'' then clamp_int (- atoi_digits 0 rest)
          else if ch = CHR ''+'' then clamp_int (atoi_digits 0 rest)
          else clamp_int (atoi_digits 0 (ch # rest)))"

text \<open>Decimal text of an integer, as \<^verbatim>\<open>%d\<close> and \<^verbatim>\<open>%jd\<close> print it.\<close>

fun show_nat :: "nat \<Rightarrow> string" where
  "show_nat n =
     (if n < 10 then [''0123456789'' ! n]
      else show_nat (n div 10) @ [''0123456789'' ! (n mod 10)])"

declare show_nat.simps [simp del]

definition show_int :: "int \<Rightarrow> string" where
  "show_int i = (if i < 0 then CHR ''-'' # show_nat (nat (- i)) else show_nat (nat i))"

section \<open>Traces and outcomes\<close>

datatype stream = Stdout | Stderr

datatype priority = LOG_ERR | LOG_INFO

text \<open>
  One event per call that leaves the program, with the arguments that tell the calls
  apart and, where the program tests it, the result.  Handles are the 32-bit values the
  vendor library returns, 0 for none.
  \<^item> \<open>Fprintf fp text\<close>: \<^verbatim>\<open>fprintf\<close> of the formatted \<open>text\<close>.
  \<^item> \<open>Pidfile_open path ok\<close>, \<open>Pidfile_write path\<close>, \<open>Pidfile_remove path\<close>: the
    \<^verbatim>\<open>libutil\<close> calls on the PID file at \<open>path\<close>; \<open>ok\<close> when the handle is not
    \<^verbatim>\<open>NULL\<close>.
  \<^item> \<open>Daemon_call result\<close>, \<open>Openlog program\<close>, \<open>Closelog\<close>,
    \<open>Signal_install signal ok\<close> (\<open>ok\<close> when \<^verbatim>\<open>signal\<close> did not return
    \<^verbatim>\<open>SIG_ERR\<close>), \<open>Malloc length ok\<close>, \<open>Free_image\<close>, \<open>Gettimeofday\<close>,
    \<open>Usleep microseconds\<close>.
  \<^item> \<open>MessageLog isDaemon priority format arguments\<close> and \<open>PerrorLog isDaemon text\<close>.
  \<^item> \<open>Display_open number handle\<close>, \<open>Display_get_info display result\<close>,
    \<open>Display_close display\<close>, \<open>Resource_create width height handle\<close>,
    \<open>Resource_delete resource\<close>, \<open>Update_start priority handle\<close>,
    \<open>Update_submit_sync update\<close>, \<open>Element_add update display resource handle\<close>,
    \<open>Element_change_source update element resource\<close>, \<open>Element_remove update element\<close>,
    \<open>Snapshot display resource\<close>, \<open>Resource_read_data resource pitch\<close>,
    \<open>Resource_write_data resource pitch\<close>.
\<close>

datatype event =
    Fprintf stream string
  | Pidfile_open string bool
  | Daemon_call int
  | Pidfile_write string
  | Openlog string
  | Signal_install int bool
  | PerrorLog bool string
  | MessageLog bool priority string "int list"
  | Bcm_host_init
  | Display_open "32 word" "32 word"
  | Display_get_info "32 word" int
  | Malloc "32 word" bool
  | Resource_create "32 word" "32 word" "32 word"
  | Update_start int "32 word"
  | Element_add "32 word" "32 word" "32 word" "32 word"
  | Update_submit_sync "32 word"
  | Gettimeofday
  | Snapshot "32 word" "32 word"
  | Resource_read_data "32 word" "32 word"
  | Resource_write_data "32 word" "32 word"
  | Element_change_source "32 word" "32 word" "32 word"
  | Usleep int
  | Element_remove "32 word" "32 word"
  | Resource_delete "32 word"
  | Display_close "32 word"
  | Free_image
  | Closelog
  | Pidfile_remove string

text \<open>
  How a piece of the program ends: it falls through to the next statement with a value,
  the process exits with a status, the behaviour is undefined (an integer division by
  zero), or the observed part of the run ends while the loop is still going.
\<close>

datatype 'a outcome = Next 'a | Exited int | Faulted | Pending

type_synonym 'a run = "event list \<times> 'a outcome"

definition and_then :: "'a run \<Rightarrow> ('a \<Rightarrow> 'b run) \<Rightarrow> 'b run" where
  "and_then m f =
     (case m of
        (es, Next a) \<Rightarrow> (case f a of (es', r) \<Rightarrow> (es @ es', r))
      | (es, Exited n) \<Rightarrow> (es, Exited n)
      | (es, Faulted) \<Rightarrow> (es, Faulted)
      | (es, Pending) \<Rightarrow> (es, Pending))"

definition emit :: "event list \<Rightarrow> unit run" where
  "emit es = (es, Next ())"

section \<open>Option parsing\<close>

text \<open>The local variables of \<^verbatim>\<open>main\<close> that the options set.\<close>

record config =
  fps :: int
  frameDuration :: int
  isDaemon :: bool
  sourceDisplayNumber :: "32 word"
  destDisplayNumber :: "32 word"
  pidfile :: "string option"

definition initial_config :: config where
  "initial_config =
     \<lparr> fps = DEFAULT_FPS,
       frameDuration = c_div 1000000 DEFAULT_FPS,
       isDaemon = False,
       sourceDisplayNumber = word_of_int DEFAULT_SOURCE_DISPLAY_NUMBER,
       destDisplayNumber = word_of_int DEFAULT_DESTINATION_DISPLAY_NUMBER,
       pidfile = None \<rparr>"

definition printUsage :: "stream \<Rightarrow> string \<Rightarrow> event list" where
  "printUsage fp name =
     [ Fprintf fp [CHR 0x0A],
       Fprintf fp (''Usage: '' @ name @ '' <options>'' @ [CHR 0x0A]),
       Fprintf fp [CHR 0x0A],
       Fprintf fp (''    --daemon - start in the background as a daemon'' @ [CHR 0x0A]),
       Fprintf fp ''    --source <number> - Raspberry Pi display number'',
       Fprintf fp ('' (default '' @ show_int DEFAULT_SOURCE_DISPLAY_NUMBER @ '')'' @ [CHR 0x0A]),
       Fprintf fp ''    --destination <number> - Raspberry Pi display number'',
       Fprintf fp ('' (default '' @ show_int DEFAULT_DESTINATION_DISPLAY_NUMBER @ '')'' @ [CHR 0x0A]),
       Fprintf fp ''    --fps <fps> - set desired frames per second'',
       Fprintf fp ('' (default '' @ show_int DEFAULT_FPS @ '' frames per second)'' @ [CHR 0x0A]),
       Fprintf fp ''    --pidfile <pidfile> - create and lock PID file'',
       Fprintf fp ('' (if being run as a daemon)'' @ [CHR 0x0A]),
       Fprintf fp (''    --help - print usage and exit'' @ [CHR 0x0A]),
       Fprintf fp [CHR 0x0A] ]"

text \<open>
  The body of the \<^verbatim>\<open>switch (opt)\<close>: \<open>opt\<close> is what \<^verbatim>\<open>getopt_long\<close> returned
  (the short option's character, or \<^verbatim>\<open>?\<close> for an option it does not know or whose
  argument is missing) and \<open>optarg\<close> the argument it found.  In the \<^verbatim>\<open>f\<close> case the
  \<^verbatim>\<open>else\<close> branch divides by \<^verbatim>\<open>frameDuration\<close>, which is 0 after an earlier
  \<^verbatim>\<open>--fps\<close> above 1000000.
\<close>

definition switch_opt :: "string \<Rightarrow> config \<Rightarrow> char \<Rightarrow> string \<Rightarrow> config run" where
  "switch_opt program c opt optarg =
     (if opt = CHR ''d'' then
        ([], Next (c\<lparr>destDisplayNumber := word_of_int (atoi optarg)\<rparr>))
      else if opt = CHR ''f'' then
        (let v = atoi optarg in
         if v > 0 then ([], Next (c\<lparr>fps := v, frameDuration := c_div 1000000 v\<rparr>))
         else if frameDuration c = 0 then ([], Faulted)
         else ([], Next (c\<lparr>fps := c_div 1000000 (frameDuration c)\<rparr>)))
      else if opt = CHR ''h'' then (printUsage Stdout program, Exited EXIT_SUCCESS)
      else if opt = CHR ''p'' then ([], Next (c\<lparr>pidfile := Some optarg\<rparr>))
      else if opt = CHR ''s'' then
        ([], Next (c\<lparr>sourceDisplayNumber := word_of_int (atoi optarg)\<rparr>))
      else if opt = CHR ''D'' then ([], Next (c\<lparr>isDaemon := True\<rparr>))
      else (printUsage Stderr program, Exited EXIT_FAILURE))"

text \<open>
  \<^verbatim>\<open>while ((opt = getopt_long(...)) != -1)\<close>: the list holds the successive results
  of \<^verbatim>\<open>getopt_long\<close> before it returns -1.
\<close>

fun getopt_loop :: "string \<Rightarrow> (char \<times> string) list \<Rightarrow> config \<Rightarrow> config run" where
  "getopt_loop program [] c = ([], Next c)"
| "getopt_loop program ((opt, optarg) # rest) c =
     and_then (switch_opt program c opt optarg) (getopt_loop program rest)"

section \<open>The run flag and the signal handler\<close>

text \<open>\<^verbatim>\<open>volatile bool run = true;\<close> and the handler installed for both signals.\<close>

definition run_initial :: bool where
  "run_initial = True"

definition signalHandler :: "int \<Rightarrow> bool \<Rightarrow> bool" where
  "signalHandler signalNumber run =
     (if signalNumber = SIGINT \<or> signalNumber = SIGTERM then False else run)"

text \<open>The successive values of the flag while the handler runs for a sequence of signals.\<close>

fun run_values :: "bool \<Rightarrow> int list \<Rightarrow> bool list" where
  "run_values run [] = [run]"
| "run_values run (sig # sigs) = run # run_values (signalHandler sig run) sigs"

section \<open>Frame pacing\<close>

record timeval =
  tv_sec :: int
  tv_usec :: int

text \<open>The \<^verbatim>\<open>timersub\<close> macro of \<^verbatim>\<open>sys/time.h\<close>: \<open>a - b\<close>, with the borrow.\<close>

definition timersub :: "timeval \<Rightarrow> timeval \<Rightarrow> timeval" where
  "timersub a b =
     (let sec = tv_sec a - tv_sec b; usec = tv_usec a - tv_usec b
      in if usec < 0 then \<lparr> tv_sec = sec - 1, tv_usec = usec + 1000000 \<rparr>
         else \<lparr> tv_sec = sec, tv_usec = usec \<rparr>)"

text \<open>
  The end of the loop body: \<open>Some d\<close> when \<^verbatim>\<open>usleep(d)\<close> is called, \<open>None\<close> when
  the body falls through without sleeping.
\<close>

definition frame_sleep :: "int \<Rightarrow> timeval \<Rightarrow> timeval \<Rightarrow> int option" where
  "frame_sleep frame_duration start_time end_time =
     (let elapsed_time = timersub end_time start_time
      in if tv_sec elapsed_time = 0 then
           if tv_usec elapsed_time < frame_duration
           then Some (frame_duration - tv_usec elapsed_time)
           else None
         else None)"

section \<open>One run of the machine\<close>

text \<open>
  What \<^verbatim>\<open>pidfile_open\<close> returned: a handle, or \<^verbatim>\<open>NULL\<close> together with the
  value found in \<^verbatim>\<open>otherpid\<close> when the message is printed.
\<close>

datatype pidfile_open_result = Pidfile_opened | Pidfile_null int

text \<open>
  One test of \<^verbatim>\<open>run\<close> at the top of the loop and, when the loop is entered, the
  results of the calls of its body.  \<open>signals\<close> are the signal numbers the handler ran
  for since the previous test.
\<close>

record iteration =
  signals :: "int list"
  start_time :: timeval
  snapshot_result :: int
  read_data_result :: int
  write_data_result :: int
  update_handle :: "32 word"
  change_source_result :: int
  submit_result :: int
  end_time :: timeval

record world =
  getopt_results :: "(char \<times> string) list"
  pidfile_open_returns :: pidfile_open_result
  daemon_returns :: int
  signal_int_ok :: bool
  signal_term_ok :: bool
  source_display_handle :: "32 word"
  source_info_returns :: int
  source_width :: "32 word"
  source_height :: "32 word"
  dest_display_handle :: "32 word"
  dest_info_returns :: int
  dest_width :: "32 word"
  dest_height :: "32 word"
  malloc_returns_null :: bool
  source_resource_handle :: "32 word"
  dest_resource_handle :: "32 word"
  setup_update_handle :: "32 word"
  element_handle :: "32 word"
  setup_submit_returns :: int
  iterations :: "iteration list"
  teardown_update_handle :: "32 word"

section \<open>The helpers of \<^verbatim>\<open>syslogUtilities.h\<close>\<close>

text \<open>
  Modelled from the spec: \<^verbatim>\<open>exitAndRemovePidFile\<close> is declared in
  \<^verbatim>\<open>syslogUtilities.h\<close>, which is not among the sources.  The spec has every fatal path
  "release the PID-file lock if held, and exit with failure status", and has the release
  be "a no-op, not a fault" when no PID file was ever opened.  The function receives the
  status and the PID-file handle only.
\<close>

definition exitAndRemovePidFile :: "int \<Rightarrow> string option \<Rightarrow> 'a run" where
  "exitAndRemovePidFile status pfh =
     ((case pfh of None \<Rightarrow> [] | Some path \<Rightarrow> [Pidfile_remove path]), Exited status)"

text \<open>
  Modelled from the spec: \<^verbatim>\<open>messageLog\<close> and \<^verbatim>\<open>perrorLog\<close> come from the same
  header.  The spec has them write "a single diagnostic line (console or syslog)
  describing the failed operation" and return; each call is the event \<open>MessageLog\<close> or
  \<open>PerrorLog\<close>, which records the arguments of the call.

  The pattern that \<^verbatim>\<open>main\<close> repeats on its fatal paths, a \<^verbatim>\<open>messageLog\<close> at
  \<^verbatim>\<open>LOG_ERR\<close> followed by \<^verbatim>\<open>exitAndRemovePidFile(EXIT_FAILURE, pfh)\<close>:
\<close>

definition fatal :: "bool \<Rightarrow> string option \<Rightarrow> string \<Rightarrow> 'a run" where
  "fatal daemon pfh message =
     and_then (emit [MessageLog daemon LOG_ERR message []])
       (\<lambda>_. exitAndRemovePidFile EXIT_FAILURE pfh)"

section \<open>\<^verbatim>\<open>main\<close>\<close>

text \<open>
  \<^verbatim>\<open>main\<close> is modelled in the order of its text, one definition per block of the
  source; \<open>program\<close> is \<^verbatim>\<open>basename(argv[0])\<close>.  Each call appears in the trace where
  the source makes it, and each test of a result is an \<open>if\<close> at the place of the
  source's.  The three \<^verbatim>\<open>vc_dispmanx_rect_set\<close> calls and the \<^verbatim>\<open>alpha\<close>
  initialiser only fill local structures and are left out.
\<close>

subsection \<open>Daemon and PID file\<close>

definition lifecycle :: "string \<Rightarrow> config \<Rightarrow> world \<Rightarrow> (string option) run" where
  "lifecycle program c w =
     (if isDaemon c then
        and_then
          (case pidfile c of
             None \<Rightarrow> ([], Next None)
           | Some path \<Rightarrow>
               (case pidfile_open_returns w of
                  Pidfile_null otherpid \<Rightarrow>
                    ([Pidfile_open path False,
                      Fprintf Stderr
                        (program @ '' is already running '' @ show_int otherpid @ [CHR 0x0A])],
                     Exited EXIT_FAILURE)
                | Pidfile_opened \<Rightarrow> ([Pidfile_open path True], Next (Some path))))
          (\<lambda>pfh.
             and_then
               (if daemon_returns w = - 1 then
                  and_then
                    (emit [Daemon_call (daemon_returns w),
                           Fprintf Stderr (''daemonize failed'' @ [CHR 0x0A])])
                    (\<lambda>_. exitAndRemovePidFile EXIT_FAILURE pfh)
                else emit [Daemon_call (daemon_returns w)])
               (\<lambda>_.
                  and_then
                    (emit (case pfh of None \<Rightarrow> [] | Some path \<Rightarrow> [Pidfile_write path]))
                    (\<lambda>_. and_then (emit [Openlog program]) (\<lambda>_. ([], Next pfh)))))
      else ([], Next None))"

subsection \<open>Signal handlers\<close>

definition install_handlers :: "string \<Rightarrow> config \<Rightarrow> string option \<Rightarrow> world \<Rightarrow> unit run" where
  "install_handlers program c pfh w =
     and_then (emit [Signal_install SIGINT (signal_int_ok w)])
       (\<lambda>_.
          and_then
            (if \<not> signal_int_ok w then
               and_then (emit [PerrorLog (isDaemon c) ''installing SIGINT signal handler''])
                 (\<lambda>_. exitAndRemovePidFile EXIT_FAILURE pfh)
             else emit [])
            (\<lambda>_.
               and_then (emit [Signal_install SIGTERM (signal_term_ok w)])
                 (\<lambda>_.
                    if \<not> signal_term_ok w then
                      and_then
                        (emit [PerrorLog (isDaemon c) ''installing SIGTERM signal handler''])
                        (\<lambda>_. exitAndRemovePidFile EXIT_FAILURE pfh)
                    else emit [])))"

subsection \<open>Displays, buffer, resources and element\<close>

text \<open>The locals of \<^verbatim>\<open>main\<close> that the loop and the teardown read.\<close>

record session =
  program_name :: string
  daemon :: bool
  frame_duration :: int
  pfh :: "string option"
  sourceDisplay :: "32 word"
  destDisplay :: "32 word"
  pitch :: "32 word"
  sourceResource :: "32 word"
  destResource :: "32 word"
  element :: "32 word"

text \<open>
  \<^verbatim>\<open>int32_t pitch = bytesPerPixel * ALIGN_TO_16(destInfo.width);\<close> and
  \<^verbatim>\<open>int32_t length = pitch * destInfo.height;\<close> with \<^verbatim>\<open>bytesPerPixel = 4\<close>.
\<close>

definition bytesPerPixel :: "32 word" where
  "bytesPerPixel = 4"

definition image_pitch :: "32 word \<Rightarrow> 32 word" where
  "image_pitch width = bytesPerPixel * ALIGN_TO_16 width"

definition image_length :: "32 word \<Rightarrow> 32 word \<Rightarrow> 32 word" where
  "image_length width height = image_pitch width * height"

definition display_setup :: "string \<Rightarrow> config \<Rightarrow> string option \<Rightarrow> world \<Rightarrow> session run" where
  "display_setup program c pf w =
     and_then
       (emit [Bcm_host_init,
              Display_open (sourceDisplayNumber c) (source_display_handle w)])
     (\<lambda>_. and_then
       (if source_display_handle w = 0
        then fatal (isDaemon c) pf ''open source display failed''
        else emit [Display_get_info (source_display_handle w) (source_info_returns w)])
     (\<lambda>_. and_then
       (if source_info_returns w \<noteq> 0
        then fatal (isDaemon c) pf ''getting source display dimensions failed''
        else emit [Display_open (destDisplayNumber c) (dest_display_handle w)])
     (\<lambda>_. and_then
       (if dest_display_handle w = 0
        then fatal (isDaemon c) pf ''open destination display failed''
        else emit [Display_get_info (dest_display_handle w) (dest_info_returns w)])
     (\<lambda>_. and_then
       (if dest_info_returns w \<noteq> 0
        then fatal (isDaemon c) pf ''getting destination display dimensions failed''
        else emit
          [MessageLog (isDaemon c) LOG_INFO ''copying from [%d] %dx%d to [%d] %dx%d''
             [sint (sourceDisplayNumber c), sint (source_width w), sint (source_height w),
              sint (destDisplayNumber c), sint (dest_width w), sint (dest_height w)],
           Malloc (image_length (dest_width w) (dest_height w)) (\<not> malloc_returns_null w)])
     (\<lambda>_. and_then
       (if malloc_returns_null w
        then fatal (isDaemon c) pf ''unable to allocate image buffer''
        else emit
          [Resource_create (dest_width w) (dest_height w) (source_resource_handle w),
           Resource_create (dest_width w) (dest_height w) (dest_resource_handle w),
           Update_start 0 (setup_update_handle w)])
     (\<lambda>_. and_then
       (if setup_update_handle w = 0
        then fatal (isDaemon c) pf ''display update failed''
        else emit
          [Element_add (setup_update_handle w) (dest_display_handle w)
             (dest_resource_handle w) (element_handle w)])
     (\<lambda>_. and_then
       (if element_handle w = 0
        then fatal (isDaemon c) pf ''failed to create DispmanX element''
        else emit [Update_submit_sync (setup_update_handle w)])
     (\<lambda>_.
       ([], Next
         \<lparr> program_name = program,
           daemon = isDaemon c,
           frame_duration = frameDuration c,
           pfh = pf,
           sourceDisplay = source_display_handle w,
           destDisplay = dest_display_handle w,
           pitch = image_pitch (dest_width w),
           sourceResource = source_resource_handle w,
           destResource = dest_resource_handle w,
           element = element_handle w \<rparr>)))))))))"

subsection \<open>The mirror loop\<close>

definition loop_body :: "session \<Rightarrow> iteration \<Rightarrow> unit run" where
  "loop_body s it =
     and_then (emit [Gettimeofday, Snapshot (sourceDisplay s) (sourceResource s)])
     (\<lambda>_. and_then
       (if snapshot_result it \<noteq> 0
        then fatal (daemon s) (pfh s) ''DispmanX snapshot failed''
        else emit [Resource_read_data (sourceResource s) (pitch s)])
     (\<lambda>_. and_then
       (if read_data_result it \<noteq> 0
        then fatal (daemon s) (pfh s) ''DispmanX read data failed''
        else emit [Resource_write_data (destResource s) (pitch s)])
     (\<lambda>_. and_then
       (if write_data_result it \<noteq> 0
        then fatal (daemon s) (pfh s) ''DispmanX write data failed''
        else emit [Update_start 10 (update_handle it)])
     (\<lambda>_. and_then
       (if update_handle it = 0
        then fatal (daemon s) (pfh s) ''display update failed''
        else emit
          [Element_change_source (update_handle it) (element s) (destResource s),
           Update_submit_sync (update_handle it),
           Gettimeofday])
     (\<lambda>_.
       emit (case frame_sleep (frame_duration s) (start_time it) (end_time it) of
               None \<Rightarrow> []
             | Some d \<Rightarrow> [Usleep d]))))))"

text \<open>
  \<^verbatim>\<open>while (run)\<close>: the flag is read after the handler has run for the signals of
  this test.  When the list ends the loop is still going.
\<close>

fun mirror_loop :: "session \<Rightarrow> bool \<Rightarrow> iteration list \<Rightarrow> unit run" where
  "mirror_loop s run [] = ([], Pending)"
| "mirror_loop s run (it # rest) =
     (let run' = foldl (\<lambda>r sig. signalHandler sig r) run (signals it)
      in if run' then and_then (loop_body s it) (\<lambda>_. mirror_loop s run' rest)
         else ([], Next ()))"

subsection \<open>Teardown and the whole program\<close>

definition teardown :: "session \<Rightarrow> world \<Rightarrow> unit run" where
  "teardown s w =
     ([Update_start 0 (teardown_update_handle w),
       Element_remove (teardown_update_handle w) (element s),
       Update_submit_sync (teardown_update_handle w),
       Resource_delete (sourceResource s),
       Resource_delete (destResource s),
       Display_close (sourceDisplay s),
       Display_close (destDisplay s),
       Free_image,
       MessageLog (daemon s) LOG_INFO ''exiting'' []]
      @ (if daemon s then [Closelog] else [])
      @ (case pfh s of None \<Rightarrow> [] | Some path \<Rightarrow> [Pidfile_remove path]),
      Exited 0)"

definition main :: "string \<Rightarrow> world \<Rightarrow> unit run" where
  "main program w =
     and_then (getopt_loop program (getopt_results w) initial_config)
     (\<lambda>c. and_then (lifecycle program c w)
     (\<lambda>pf. and_then (install_handlers program c pf w)
     (\<lambda>_. and_then (display_setup program c pf w)
     (\<lambda>s. and_then (mirror_loop s run_initial (iterations w))
     (\<lambda>_. teardown s w)))))"

section \<open>Vocabulary of the properties\<close>

text \<open>
  The spec's "width rounded up to the next multiple of 16", on mathematical integers:
  the least multiple of 16 that is not below \<open>n\<close>.
\<close>

definition next_multiple_of_16 :: "int \<Rightarrow> int" where
  "next_multiple_of_16 n = 16 * ((n + 15) div 16)"

text \<open>What option parsing maintains about the two variables of the frame rate.\<close>

definition fps_invariant :: "config \<Rightarrow> bool" where
  "fps_invariant c = (0 < fps c \<and> frameDuration c = 1000000 div fps c)"

text \<open>The events that release what the display session holds.\<close>

fun is_display_teardown :: "event \<Rightarrow> bool" where
  "is_display_teardown (Element_remove u e) = True"
| "is_display_teardown (Resource_delete r) = True"
| "is_display_teardown (Display_close d) = True"
| "is_display_teardown Free_image = True"
| "is_display_teardown e = False"

fun is_pidfile_remove :: "event \<Rightarrow> bool" where
  "is_pidfile_remove (Pidfile_remove path) = True"
| "is_pidfile_remove e = False"

fun is_pidfile_event :: "event \<Rightarrow> bool" where
  "is_pidfile_event (Pidfile_open path ok) = True"
| "is_pidfile_event (Pidfile_write path) = True"
| "is_pidfile_event (Pidfile_remove path) = True"
| "is_pidfile_event e = False"

fun is_error_log :: "event \<Rightarrow> bool" where
  "is_error_log (MessageLog d LOG_ERR message args) = True"
| "is_error_log (PerrorLog d message) = True"
| "is_error_log e = False"

text \<open>The teardown of the spec, as the events of a run whose setup succeeded.\<close>

definition teardown_sequence :: "world \<Rightarrow> event list" where
  "teardown_sequence w =
     [Element_remove (teardown_update_handle w) (element_handle w),
      Resource_delete (source_resource_handle w),
      Resource_delete (dest_resource_handle w),
      Display_close (source_display_handle w),
      Display_close (dest_display_handle w),
      Free_image]"

definition remove_of :: "string option \<Rightarrow> event list" where
  "remove_of pf = (case pf of None \<Rightarrow> [] | Some path \<Rightarrow> [Pidfile_remove path])"

text \<open>
  A run with the results of \<^verbatim>\<open>change_source\<close> and of the two kinds of
  \<^verbatim>\<open>update_submit_sync\<close> before the teardown replaced by other values.
\<close>

definition with_flip_results :: "(iteration \<Rightarrow> int) \<Rightarrow> (iteration \<Rightarrow> int) \<Rightarrow> iteration \<Rightarrow> iteration" where
  "with_flip_results f g it = it\<lparr>change_source_result := f it, submit_result := g it\<rparr>"

definition with_submit_results :: "int \<Rightarrow> (iteration \<Rightarrow> int) \<Rightarrow> (iteration \<Rightarrow> int) \<Rightarrow> world \<Rightarrow> world" where
  "with_submit_results r f g w =
     w\<lparr>setup_submit_returns := r, iterations := map (with_flip_results f g) (iterations w)\<rparr>"

text \<open>
  Everything of \<open>main\<close> before the loop.  \<open>main\<close> is this followed by the loop and
  the teardown (\<open>main_startup\<close> below).
\<close>

definition startup :: "string \<Rightarrow> world \<Rightarrow> session run" where
  "startup program w =
     and_then (getopt_loop program (getopt_results w) initial_config)
     (\<lambda>c. and_then (lifecycle program c w)
     (\<lambda>pf. and_then (install_handlers program c pf w)
     (\<lambda>_. display_setup program c pf w)))"

text \<open>The PID file whose lock a trace has acquired: the path of a successful open.\<close>

fun lock_held :: "event list \<Rightarrow> string option" where
  "lock_held [] = None"
| "lock_held (Pidfile_open path True # es) = Some path"
| "lock_held (e # es) = lock_held es"

text \<open>The calls that occur before the loop; an update started there has priority 0.\<close>

fun is_startup_event :: "event \<Rightarrow> bool" where
  "is_startup_event (Update_start priority u) = (priority = 0)"
| "is_startup_event (Element_change_source u e r) = False"
| "is_startup_event Gettimeofday = False"
| "is_startup_event (Snapshot d r) = False"
| "is_startup_event (Resource_read_data r p) = False"
| "is_startup_event (Resource_write_data r p) = False"
| "is_startup_event (Usleep d) = False"
| "is_startup_event (Element_remove u e) = False"
| "is_startup_event (Resource_delete r) = False"
| "is_startup_event (Display_close d) = False"
| "is_startup_event Free_image = False"
| "is_startup_event Closelog = False"
| "is_startup_event e = True"

text \<open>
  A piece of the program that touches the PID file only by removing it, once, when it
  exits, and that exits with \<^verbatim>\<open>EXIT_FAILURE\<close> only.
\<close>

definition fails_cleanly :: "string option \<Rightarrow> 'a run \<Rightarrow> bool" where
  "fails_cleanly pf r =
     (filter is_pidfile_event (fst r) = (case snd r of Exited st \<Rightarrow> remove_of pf | _ \<Rightarrow> [])
      \<and> (case snd r of Exited st \<Rightarrow> st = EXIT_FAILURE | Faulted \<Rightarrow> False | _ \<Rightarrow> True))"

subsection \<open>Sample runs\<close>

text \<open>
  An iteration whose calls all succeed and take 5 ms, the same with \<^verbatim>\<open>SIGTERM\<close>
  handled before its test of the flag, and a machine with two 1920x1080 displays on which
  every call succeeds: one frame is copied, then the signal stops the loop.
\<close>

definition quiet_iteration :: iteration where
  "quiet_iteration =
     \<lparr> signals = [],
       start_time = \<lparr> tv_sec = 100, tv_usec = 0 \<rparr>,
       snapshot_result = 0,
       read_data_result = 0,
       write_data_result = 0,
       update_handle = 7,
       change_source_result = 0,
       submit_result = 0,
       end_time = \<lparr> tv_sec = 100, tv_usec = 5000 \<rparr> \<rparr>"

definition stop_iteration :: iteration where
  "stop_iteration = quiet_iteration\<lparr>signals := [SIGTERM]\<rparr>"

definition sample_world :: world where
  "sample_world =
     \<lparr> getopt_results = [],
       pidfile_open_returns = Pidfile_opened,
       daemon_returns = 0,
       signal_int_ok = True,
       signal_term_ok = True,
       source_display_handle = 1,
       source_info_returns = 0,
       source_width = 1920,
       source_height = 1080,
       dest_display_handle = 2,
       dest_info_returns = 0,
       dest_width = 1920,
       dest_height = 1080,
       malloc_returns_null = False,
       source_resource_handle = 3,
       dest_resource_handle = 4,
       setup_update_handle = 5,
       element_handle = 6,
       setup_submit_returns = 0,
       iterations = [quiet_iteration, stop_iteration],
       teardown_update_handle = 8 \<rparr>"

definition sample_session :: session where
  "sample_session =
     \<lparr> program_name = ''raspi2raspi'',
       daemon = False,
       frame_duration = 100000,
       pfh = None,
       sourceDisplay = 1,
       destDisplay = 2,
       pitch = 7680,
       sourceResource = 3,
       destResource = 4,
       element = 6 \<rparr>"

text \<open>\<^verbatim>\<open>raspi2raspi --fps 0\<close>.\<close>

definition world_fps_zero :: world where
  "world_fps_zero = sample_world\<lparr>getopt_results := [(CHR ''f'', ''0'')]\<rparr>"

text \<open>The first snapshot fails.\<close>

definition world_snapshot_fails :: world where
  "world_snapshot_fails =
     sample_world\<lparr>iterations := [quiet_iteration\<lparr>snapshot_result := - 1\<rparr>]\<rparr>"

text \<open>Every call whose result the program does not read reports a failure.\<close>

definition world_submit_fails :: world where
  "world_submit_fails = with_submit_results (- 1) (\<lambda>_. - 1) (\<lambda>_. - 1) sample_world"

text \<open>The first per-frame \<^verbatim>\<open>vc_dispmanx_update_start\<close> returns no handle.\<close>

definition world_update_fails :: world where
  "world_update_fails =
     sample_world\<lparr>iterations := [quiet_iteration\<lparr>update_handle := 0\<rparr>]\<rparr>"

text \<open>
  \<^verbatim>\<open>raspi2raspi --pidfile /tmp/x.pid --daemon\<close> while process 4242 holds the lock.
\<close>

definition world_pid_contention :: world where
  "world_pid_contention =
     sample_world\<lparr>getopt_results := [(CHR ''p'', ''/tmp/x.pid''), (CHR ''D'', [])],
                  pidfile_open_returns := Pidfile_null 4242\<rparr>"

text \<open>\<^verbatim>\<open>raspi2raspi --pidfile /tmp/x.pid\<close>, in the foreground.\<close>

definition world_pidfile_foreground :: world where
  "world_pidfile_foreground = sample_world\<lparr>getopt_results := [(CHR ''p'', ''/tmp/x.pid'')]\<rparr>"

text \<open>\<^verbatim>\<open>raspi2raspi --fps 2000000 --fps 0\<close>.\<close>

definition world_fps_huge_then_zero :: world where
  "world_fps_huge_then_zero =
     sample_world\<lparr>getopt_results := [(CHR ''f'', ''2000000''), (CHR ''f'', ''0'')]\<rparr>"

section \<open>Arithmetic facts\<close>

lemma c_div_pos: "0 < a \<Longrightarrow> 0 < b \<Longrightarrow> c_div a b = a div b"
  by (simp add: c_div_def)

lemma mult_div_le:
  fixes a b :: int
  assumes "0 < b"
  shows "b * (a div b) \<le> a"
proof -
  have "b * (a div b) + a mod b = a" by simp
  moreover have "0 \<le> a mod b" using assms by simp
  ultimately show ?thesis by linarith
qed

text \<open>Dividing twice by the quotient gives the quotient back.\<close>

lemma div_div_div:
  fixes N n :: int
  assumes "0 < n" "n \<le> N"
  shows "N div (N div (N div n)) = N div n"
proof -
  let ?q = "N div n"
  let ?m = "N div ?q"
  have N: "0 < N" using assms by simp
  have q: "0 < ?q" using assms by (simp add: pos_imp_zdiv_pos_iff)
  have "n * ?q \<le> N" using assms(1) by (rule mult_div_le)
  then have "(n * ?q) div ?q \<le> ?m" using q by (rule zdiv_mono1)
  then have nm: "n \<le> ?m" using q by simp
  then have m: "0 < ?m" using assms by simp
  have "?q * ?m \<le> N" using q by (rule mult_div_le)
  then have "(?q * ?m) div ?m \<le> N div ?m" using m by (rule zdiv_mono1)
  then have 1: "?q \<le> N div ?m" using m by simp
  have 2: "N div ?m \<le> ?q" using N assms nm by (intro zdiv_mono2) simp_all
  from 1 2 show ?thesis by simp
qed

lemma next_multiple_of_16_least:
  "n \<le> next_multiple_of_16 n \<and> next_multiple_of_16 n < n + 16 \<and> 16 dvd next_multiple_of_16 n"
  unfolding next_multiple_of_16_def by presburger

subsection \<open>32-bit words\<close>

lemma and_not_mask_4: "(x :: 32 word) AND NOT (mask 4) = push_bit 4 (drop_bit 4 x)"
  by (rule bit_eqI) (auto simp: bit_simps)

lemma fifteen_mask: "(15 :: 32 word) = mask 4"
  by (simp add: mask_eq_exp_minus_1)

lemma uint_and_not_15: "uint ((y :: 32 word) AND NOT 15) = 16 * (uint y div 16)"
proof -
  have "y AND NOT 15 = push_bit 4 (drop_bit 4 y)"
    by (simp only: fifteen_mask and_not_mask_4)
  moreover have "take_bit 32 (uint y) = uint y"
    using uint_bounded [of y] by (intro take_bit_int_eq_self) simp_all
  ultimately have "uint (y AND NOT 15) = take_bit 32 (push_bit 4 (drop_bit 4 (uint y)))"
    by (simp only: unsigned_push_bit_eq unsigned_drop_bit_eq) simp
  also have "\<dots> = (16 * (uint y div 16)) mod 2 ^ 32"
    by (simp add: push_bit_eq_mult drop_bit_eq_div take_bit_eq_mod mult.commute)
  also have "\<dots> = 16 * (uint y div 16)"
  proof -
    have "16 * (uint y div 16) \<le> uint y" by (rule mult_div_le) simp
    moreover have "uint y < 2 ^ 32" using uint_bounded [of y] by simp
    moreover have "0 \<le> 16 * (uint y div 16)" by (simp add: pos_imp_zdiv_nonneg_iff)
    ultimately show ?thesis by simp
  qed
  finally show ?thesis .
qed

lemma uint_eq_sint_nonneg:
  assumes "0 \<le> sint (w :: 32 word)"
  shows "uint w = sint w"
proof -
  have "sint w < 2 ^ 32" using sint_lt [of w] by simp
  moreover have "uint w = uint (word_of_int (sint w) :: 32 word)" by simp
  ultimately show ?thesis using assms by (simp only: uint_word_of_int) simp
qed

lemma sint_word_of_int_32:
  "- 2147483648 \<le> i \<Longrightarrow> i \<le> 2147483647 \<Longrightarrow> sint (word_of_int i :: 32 word) = i"
  by (simp add: sint_sbintrunc' signed_take_bit_int_eq_self)

lemma uint_ALIGN_TO_16:
  assumes "0 \<le> sint w" "4 * next_multiple_of_16 (sint w) \<le> 2147483647"
  shows "ALIGN_TO_16 w = word_of_int (next_multiple_of_16 (sint w))"
proof -
  let ?a = "next_multiple_of_16 (sint w)"
  have uw: "uint w = sint w" using assms(1) by (rule uint_eq_sint_nonneg)
  have a: "sint w \<le> ?a" using next_multiple_of_16_least [of "sint w"] by simp
  have "uint (w + 15) = (uint w + 15) mod 2 ^ 32" by (simp add: uint_word_ariths)
  also have "\<dots> = sint w + 15" using uw assms a by simp
  finally have 1: "uint (w + 15) = sint w + 15" .
  have "uint (ALIGN_TO_16 w) = ?a"
    unfolding ALIGN_TO_16_def uint_and_not_15 1 next_multiple_of_16_def ..
  then show ?thesis by (metis word_of_int_uint)
qed

section \<open>Sequencing\<close>

lemma and_then_Next:
  "and_then m f = (es, Next b) \<Longrightarrow>
     \<exists>es1 a es2. m = (es1, Next a) \<and> f a = (es2, Next b) \<and> es = es1 @ es2"
  by (cases m) (auto simp: and_then_def split: outcome.splits prod.splits)

section \<open>Option parsing keeps the frame interval in step with the frame rate\<close>

lemma switch_opt_invariant:
  assumes "switch_opt program c opt optarg = (es, Next c')" "fps_invariant c"
  shows "fps_invariant c'"
proof -
  have inv: "0 < fps c" "frameDuration c = 1000000 div fps c"
    using assms(2) by (simp_all add: fps_invariant_def)
  have fd0: "0 \<le> frameDuration c" using inv by (simp add: pos_imp_zdiv_nonneg_iff)
  show ?thesis
  proof (cases "opt = CHR ''f''")
    case False
    then show ?thesis using assms
      by (auto simp: switch_opt_def fps_invariant_def split: if_splits)
  next
    case f: True
    show ?thesis
    proof (cases "0 < atoi optarg")
      case True
      then show ?thesis using assms f
        by (auto simp: switch_opt_def fps_invariant_def c_div_pos Let_def)
    next
      case False
      with assms f have nz: "frameDuration c \<noteq> 0"
        and c': "c' = c\<lparr>fps := c_div 1000000 (frameDuration c)\<rparr>"
        by (auto simp: switch_opt_def Let_def split: if_splits)
      from nz fd0 have pos: "0 < frameDuration c" by simp
      have le: "fps c \<le> 1000000"
        using pos inv(1) by (simp add: inv(2) pos_imp_zdiv_pos_iff)
      have "1000000 div fps c \<le> 1000000 div 1"
        using inv(1) by (intro zdiv_mono2) simp_all
      then have fd_le: "frameDuration c \<le> 1000000" by (simp add: inv(2))
      have "1000000 div (1000000 div (1000000 div fps c)) = 1000000 div fps c"
        using inv(1) le by (rule div_div_div)
      moreover have "0 < 1000000 div frameDuration c"
        using pos fd_le by (simp add: pos_imp_zdiv_pos_iff)
      ultimately show ?thesis
        using pos inv by (simp add: c' fps_invariant_def c_div_pos)
    qed
  qed
qed

lemma getopt_loop_invariant:
  "getopt_loop program opts c = (es, Next c') \<Longrightarrow> fps_invariant c \<Longrightarrow> fps_invariant c'"
proof (induction opts arbitrary: c es)
  case Nil
  then show ?case by simp
next
  case (Cons o1 opts)
  obtain opt optarg where o1: "o1 = (opt, optarg)" by (cases o1)
  from Cons.prems(1) obtain es1 c1 es2 where
    "switch_opt program c opt optarg = (es1, Next c1)"
    "getopt_loop program opts c1 = (es2, Next c')"
    unfolding o1 getopt_loop.simps by (blast dest: and_then_Next)
  then show ?case using Cons.IH Cons.prems(2) switch_opt_invariant by blast
qed

lemma initial_invariant: "fps_invariant initial_config"
  by (simp add: fps_invariant_def initial_config_def DEFAULT_FPS_def c_div_def)

lemmas eval_defs =
  main_def and_then_def emit_def fatal_def exitAndRemovePidFile_def
  lifecycle_def install_handlers_def display_setup_def loop_body_def teardown_def
  switch_opt_def initial_config_def run_initial_def signalHandler_def
  frame_sleep_def timersub_def image_length_def image_pitch_def bytesPerPixel_def
  ALIGN_TO_16_def sample_world_def quiet_iteration_def stop_iteration_def
  SIGINT_def SIGTERM_def EXIT_FAILURE_def EXIT_SUCCESS_def DEFAULT_FPS_def
  DEFAULT_SOURCE_DISPLAY_NUMBER_def DEFAULT_DESTINATION_DISPLAY_NUMBER_def c_div_def
  atoi_def isspace_def isdigit_def clamp_int_def Let_def

text \<open>
  C3.  The frame interval is 1000000 / fps for every positive fps: for the default
  (fps 10), for a positive \<^verbatim>\<open>--fps\<close> argument, which becomes the fps, and for the
  fps and interval that any completed parse leaves.  Both operands are positive, so C's
  truncating division is \<open>div\<close>.
\<close>

theorem frame_interval_of_positive_fps:
  "fps initial_config = 10
   \<and> frameDuration initial_config = 1000000 div fps initial_config
   \<and> (0 < atoi optarg \<longrightarrow>
        switch_opt program c (CHR ''f'') optarg =
          ([], Next (c\<lparr>fps := atoi optarg, frameDuration := 1000000 div atoi optarg\<rparr>)))
   \<and> (getopt_loop program opts initial_config = (es, Next c') \<longrightarrow>
        0 < fps c' \<and> frameDuration c' = 1000000 div fps c')"
proof (intro conjI impI)
  show "fps initial_config = 10"
    by (simp add: initial_config_def DEFAULT_FPS_def)
  show "frameDuration initial_config = 1000000 div fps initial_config"
    using initial_invariant by (simp add: fps_invariant_def)
next
  assume "0 < atoi optarg"
  then show "switch_opt program c (CHR ''f'') optarg =
      ([], Next (c\<lparr>fps := atoi optarg, frameDuration := 1000000 div atoi optarg\<rparr>))"
    by (simp add: switch_opt_def Let_def c_div_pos)
next
  assume "getopt_loop program opts initial_config = (es, Next c')"
  then have "fps_invariant c'"
    using initial_invariant by (rule getopt_loop_invariant)
  then show "0 < fps c'" and "frameDuration c' = 1000000 div fps c'"
    by (simp_all add: fps_invariant_def)
qed

text \<open>\<^verbatim>\<open>--fps 25\<close> gives 25 frames per second and an interval of 40000 microseconds.\<close>

theorem frame_interval_of_positive_fps_witness:
  "0 < atoi ''25''
   \<and> getopt_loop ''raspi2raspi'' [(CHR ''f'', ''25'')] initial_config
       = ([], Next (initial_config\<lparr>fps := 25, frameDuration := 40000\<rparr>))
   \<and> switch_opt ''raspi2raspi'' initial_config (CHR ''f'') ''25''
       = ([], Next (initial_config\<lparr>fps := 25, frameDuration := 40000\<rparr>))
   \<and> frameDuration (initial_config\<lparr>fps := 25, frameDuration := 40000\<rparr>)
       = 1000000 div fps (initial_config\<lparr>fps := 25, frameDuration := 40000\<rparr>)"
proof -
  have a: "atoi ''25'' = 25"
    by (simp add: atoi_def isspace_def isdigit_def clamp_int_def)
  have g: "getopt_loop ''raspi2raspi'' [(CHR ''f'', ''25'')] initial_config
      = ([], Next (initial_config\<lparr>fps := 25, frameDuration := 40000\<rparr>))"
    by (simp add: a switch_opt_def and_then_def c_div_def)
  show ?thesis
    using a g
      frame_interval_of_positive_fps [of "''25''" "''raspi2raspi''" initial_config
        "[(CHR ''f'', ''25'')]" "[]" "initial_config\<lparr>fps := 25, frameDuration := 40000\<rparr>"]
    by simp
qed

section \<open>The pixel buffer\<close>

text \<open>
  C4 as stated fails: the stride and the length are \<^verbatim>\<open>int32_t\<close>.  For a destination
  of 65536 by 65536 pixels (both non-negative) the stride is 262144 and the length
  262144 * 65536 = 2^34, which no \<^verbatim>\<open>int32_t\<close> holds; the 32-bit product is 0.
\<close>

theorem image_length_overflow_counterexample:
  "0 \<le> sint (65536 :: 32 word)
   \<and> 4 * next_multiple_of_16 (sint (65536 :: 32 word)) * sint (65536 :: 32 word) = 17179869184
   \<and> sint (image_length 65536 65536) = 0"
  by (simp add: image_length_def image_pitch_def bytesPerPixel_def ALIGN_TO_16_def
      next_multiple_of_16_def)

text \<open>
  C4, amended.  For every destination geometry with non-negative width and height whose
  stride and buffer length fit \<^verbatim>\<open>int32_t\<close>, the buffer length is
  4 * (width rounded up to the next multiple of 16) * height, the stride is 4 * the
  rounded-up width, and the stride is a multiple of 64.
\<close>

theorem image_pitch_and_length:
  assumes w: "0 \<le> sint w" and h: "0 \<le> sint h"
    and p: "4 * next_multiple_of_16 (sint w) \<le> 2147483647"
    and l: "4 * next_multiple_of_16 (sint w) * sint h \<le> 2147483647"
  shows "sint (image_length w h) = 4 * next_multiple_of_16 (sint w) * sint h
    \<and> sint (image_pitch w) = 4 * next_multiple_of_16 (sint w)
    \<and> 64 dvd sint (image_pitch w)"
proof -
  let ?a = "next_multiple_of_16 (sint w)"
  have a: "0 \<le> ?a" "16 dvd ?a"
    using next_multiple_of_16_least [of "sint w"] w by auto
  have 3: "ALIGN_TO_16 w = word_of_int ?a" using w p by (rule uint_ALIGN_TO_16)
  have 4: "image_pitch w = word_of_int (4 * ?a)"
    by (simp add: image_pitch_def bytesPerPixel_def 3)
  have 5: "sint (image_pitch w) = 4 * ?a"
    unfolding 4 using a p by (intro sint_word_of_int_32) simp_all
  have "h = word_of_int (sint h)" by simp
  then have 6: "image_length w h = word_of_int (4 * ?a * sint h)"
    unfolding image_length_def 4 by (metis wi_hom_mult)
  have 7: "0 \<le> 4 * ?a * sint h" using a h by simp
  have "sint (image_length w h) = sint (word_of_int (4 * ?a * sint h) :: 32 word)"
    by (simp only: 6)
  also have "\<dots> = 4 * ?a * sint h"
    using 7 l by (intro sint_word_of_int_32) linarith+
  finally have 8: "sint (image_length w h) = 4 * ?a * sint h" .
  have "(64 :: int) = 4 * 16" by simp
  then have "64 dvd 4 * ?a" using a(2) by (metis mult_dvd_mono dvd_refl)
  with 5 8 show ?thesis by simp
qed

text \<open>A 1920 by 1080 destination: stride 7680 bytes, buffer 8294400 bytes.\<close>

theorem image_pitch_and_length_witness:
  "0 \<le> sint (1920 :: 32 word) \<and> 0 \<le> sint (1080 :: 32 word)
   \<and> 4 * next_multiple_of_16 (sint (1920 :: 32 word)) * sint (1080 :: 32 word) \<le> 2147483647
   \<and> sint (image_length 1920 1080) = 8294400
   \<and> sint (image_pitch 1920) = 7680"
  using image_pitch_and_length [of 1920 1080]
  by (simp add: next_multiple_of_16_def)

section \<open>The run flag\<close>

lemma run_values_False: "run_values False sigs = replicate (Suc (length sigs)) False"
  by (induction sigs) (simp_all add: signalHandler_def)

lemma run_values_True:
  "\<exists>k m. 0 < k \<and> run_values True sigs = replicate k True @ replicate m False"
proof (induction sigs)
  case Nil
  have "run_values True [] = replicate 1 True @ replicate 0 False" by simp
  then show ?case by blast
next
  case (Cons s sigs)
  show ?case
  proof (cases "signalHandler s True")
    case True
    from Cons obtain k m where
      "0 < k" "run_values True sigs = replicate k True @ replicate m False" by blast
    with True have "run_values True (s # sigs) = replicate (Suc k) True @ replicate m False"
      by simp
    then show ?thesis by blast
  next
    case False
    then have "run_values True (s # sigs)
        = replicate 1 True @ replicate (Suc (length sigs)) False"
      by (simp add: run_values_False)
    then show ?thesis by blast
  qed
qed

text \<open>
  C6.  The flag starts true; the handler never turns false into true; it turns true into
  false exactly for \<^verbatim>\<open>SIGINT\<close> and \<^verbatim>\<open>SIGTERM\<close>; and whatever signals are handled,
  the successive values of the flag are some trues (at least the initial one) followed by
  falses only: at most one transition.  The handler is the only writer: the loop passes
  the flag on as the handler left it, and no other part of \<open>main\<close> has it.
\<close>

theorem run_flag_monotone:
  "run_initial = True
   \<and> signalHandler sig False = False
   \<and> (signalHandler sig True = False) = (sig = SIGINT \<or> sig = SIGTERM)
   \<and> (\<exists>k m. 0 < k \<and> run_values run_initial sigs = replicate k True @ replicate m False)"
  using run_values_True [of sigs] by (simp add: run_initial_def signalHandler_def)

text \<open>Two signals that the handler ignores or acts on, in turn.\<close>

theorem run_flag_monotone_witness:
  "run_values run_initial [1, SIGTERM, SIGINT] = [True, True, False, False]
   \<and> signalHandler SIGTERM True = False
   \<and> signalHandler 1 True = True"
  using run_flag_monotone [of SIGTERM "[1, SIGTERM, SIGINT]"] run_flag_monotone [of 1 "[]"]
  by (simp add: run_initial_def signalHandler_def SIGINT_def SIGTERM_def)

text \<open>The flag that \<open>mirror_loop\<close> tests is the last of these values.\<close>

lemma run_values_nonempty: "run_values run sigs \<noteq> []"
  by (cases sigs) simp_all

lemma foldl_signalHandler:
  "foldl (\<lambda>r sig. signalHandler sig r) run sigs = last (run_values run sigs)"
  by (induction sigs arbitrary: run) (simp_all add: run_values_nonempty)

section \<open>Frame pacing\<close>

lemma timersub_total:
  "tv_sec (timersub a b) * 1000000 + tv_usec (timersub a b)
     = (tv_sec a * 1000000 + tv_usec a) - (tv_sec b * 1000000 + tv_usec b)"
  by (simp add: timersub_def Let_def)

lemma loop_body_completes:
  assumes "snapshot_result it = 0" "read_data_result it = 0" "write_data_result it = 0"
    "update_handle it \<noteq> 0"
  shows "loop_body s it =
    ([Gettimeofday, Snapshot (sourceDisplay s) (sourceResource s),
      Resource_read_data (sourceResource s) (pitch s),
      Resource_write_data (destResource s) (pitch s),
      Update_start 10 (update_handle it),
      Element_change_source (update_handle it) (element s) (destResource s),
      Update_submit_sync (update_handle it),
      Gettimeofday] @
     (case frame_sleep (frame_duration s) (start_time it) (end_time it) of
        None \<Rightarrow> [] | Some d \<Rightarrow> [Usleep d]), Next ())"
  using assms by (simp add: loop_body_def and_then_def emit_def)

lemma loop_body_Usleep:
  "Usleep d \<in> set (fst (loop_body s it)) \<longleftrightarrow>
     snapshot_result it = 0 \<and> read_data_result it = 0 \<and> write_data_result it = 0
     \<and> update_handle it \<noteq> 0
     \<and> frame_sleep (frame_duration s) (start_time it) (end_time it) = Some d"
  by (auto simp add: loop_body_def and_then_def emit_def fatal_def exitAndRemovePidFile_def
      split: option.splits)

text \<open>
  C7.  With the elapsed time \<open>timersub (end_time it) (start_time it)\<close>, which is the
  end timestamp minus the start timestamp: when its seconds are 0 and its microseconds
  are below the frame interval, an iteration that reaches its end calls \<^verbatim>\<open>usleep\<close>
  once, with the frame interval minus the elapsed microseconds; in every other case the
  body ends with the second \<^verbatim>\<open>gettimeofday\<close> and no \<^verbatim>\<open>usleep\<close>.  An iteration
  calls \<^verbatim>\<open>usleep\<close> in no other way.
\<close>

theorem frame_pacing:
  "tv_sec (timersub (end_time it) (start_time it)) * 1000000
      + tv_usec (timersub (end_time it) (start_time it))
     = (tv_sec (end_time it) * 1000000 + tv_usec (end_time it))
        - (tv_sec (start_time it) * 1000000 + tv_usec (start_time it))
   \<and> (snapshot_result it = 0 \<and> read_data_result it = 0 \<and> write_data_result it = 0
        \<and> update_handle it \<noteq> 0 \<longrightarrow>
      loop_body s it =
        ([Gettimeofday, Snapshot (sourceDisplay s) (sourceResource s),
          Resource_read_data (sourceResource s) (pitch s),
          Resource_write_data (destResource s) (pitch s),
          Update_start 10 (update_handle it),
          Element_change_source (update_handle it) (element s) (destResource s),
          Update_submit_sync (update_handle it),
          Gettimeofday] @
         (if tv_sec (timersub (end_time it) (start_time it)) = 0
              \<and> tv_usec (timersub (end_time it) (start_time it)) < frame_duration s
          then [Usleep (frame_duration s - tv_usec (timersub (end_time it) (start_time it)))]
          else []),
         Next ()))
   \<and> (Usleep d \<in> set (fst (loop_body s it)) \<longrightarrow>
        tv_sec (timersub (end_time it) (start_time it)) = 0
        \<and> tv_usec (timersub (end_time it) (start_time it)) < frame_duration s
        \<and> d = frame_duration s - tv_usec (timersub (end_time it) (start_time it)))"
proof (intro conjI impI)
  show "tv_sec (timersub (end_time it) (start_time it)) * 1000000
      + tv_usec (timersub (end_time it) (start_time it))
     = (tv_sec (end_time it) * 1000000 + tv_usec (end_time it))
        - (tv_sec (start_time it) * 1000000 + tv_usec (start_time it))"
    by (rule timersub_total)
next
  assume "snapshot_result it = 0 \<and> read_data_result it = 0 \<and> write_data_result it = 0
        \<and> update_handle it \<noteq> 0"
  then show "loop_body s it =
        ([Gettimeofday, Snapshot (sourceDisplay s) (sourceResource s),
          Resource_read_data (sourceResource s) (pitch s),
          Resource_write_data (destResource s) (pitch s),
          Update_start 10 (update_handle it),
          Element_change_source (update_handle it) (element s) (destResource s),
          Update_submit_sync (update_handle it),
          Gettimeofday] @
         (if tv_sec (timersub (end_time it) (start_time it)) = 0
              \<and> tv_usec (timersub (end_time it) (start_time it)) < frame_duration s
          then [Usleep (frame_duration s - tv_usec (timersub (end_time it) (start_time it)))]
          else []),
         Next ())"
    by (simp add: loop_body_completes frame_sleep_def Let_def)
next
  assume "Usleep d \<in> set (fst (loop_body s it))"
  then have *: "frame_sleep (frame_duration s) (start_time it) (end_time it) = Some d"
    by (simp add: loop_body_Usleep)
  then show "tv_sec (timersub (end_time it) (start_time it)) = 0"
    and "tv_usec (timersub (end_time it) (start_time it)) < frame_duration s"
    and "d = frame_duration s - tv_usec (timersub (end_time it) (start_time it))"
    by (auto simp: frame_sleep_def Let_def split: if_splits)
qed

text \<open>
  At 10 frames per second an iteration that took 5 ms sleeps 95 ms; one that took 1.2 s
  does not sleep.
\<close>

theorem frame_pacing_witness:
  "snapshot_result quiet_iteration = 0 \<and> read_data_result quiet_iteration = 0
   \<and> write_data_result quiet_iteration = 0 \<and> update_handle quiet_iteration \<noteq> 0
   \<and> timersub (end_time quiet_iteration) (start_time quiet_iteration)
       = \<lparr> tv_sec = 0, tv_usec = 5000 \<rparr>
   \<and> Usleep 95000 \<in> set (fst (loop_body sample_session quiet_iteration))
   \<and> loop_body sample_session
        (quiet_iteration\<lparr>end_time := \<lparr> tv_sec = 101, tv_usec = 200000 \<rparr>\<rparr>)
       = ([Gettimeofday, Snapshot 1 3, Resource_read_data 3 7680, Resource_write_data 4 7680,
           Update_start 10 7, Element_change_source 7 6 4, Update_submit_sync 7,
           Gettimeofday], Next ())"
  using frame_pacing [of quiet_iteration sample_session 95000]
    frame_pacing [of "quiet_iteration\<lparr>end_time := \<lparr> tv_sec = 101, tv_usec = 200000 \<rparr>\<rparr>"
      sample_session 0]
  by (simp add: quiet_iteration_def sample_session_def timersub_def)

section \<open>A frame rate of zero or less\<close>

text \<open>
  C1 as stated fails.  With \<^verbatim>\<open>--fps 0\<close> the argument is not positive, the
  \<^verbatim>\<open>else\<close> branch leaves \<^verbatim>\<open>frameDuration\<close> at the default 100000, and the first
  iteration, which took 5 ms, sleeps the remaining 95 ms.
\<close>

theorem fps_zero_sleeps_counterexample:
  "getopt_results world_fps_zero = [(CHR ''f'', ''0'')]
   \<and> atoi ''0'' \<le> 0
   \<and> Usleep 95000 \<in> set (fst (main ''raspi2raspi'' world_fps_zero))"
  by (simp add: world_fps_zero_def eval_defs)

text \<open>
  C1, amended.  When the argument of \<^verbatim>\<open>--fps\<close> is zero, negative or malformed text
  (not positive once read by \<^verbatim>\<open>atoi\<close>) and the frame interval so far is not 0, the
  option leaves the frame interval as it was and sets fps to 1000000 / that interval; given
  alone it leaves the defaults, fps 10 and 100000 microseconds.  The loop therefore still
  performs the frame-interval-based sleep: whenever the elapsed seconds are 0 and the
  elapsed microseconds are below that interval it sleeps the difference.
\<close>

theorem nonpositive_fps_keeps_frame_interval:
  assumes "atoi optarg \<le> 0" and "frameDuration c \<noteq> 0"
  shows "switch_opt program c (CHR ''f'') optarg
      = ([], Next (c\<lparr>fps := c_div 1000000 (frameDuration c)\<rparr>))
    \<and> frameDuration (c\<lparr>fps := c_div 1000000 (frameDuration c)\<rparr>) = frameDuration c
    \<and> getopt_loop program [(CHR ''f'', optarg)] initial_config = ([], Next initial_config)
    \<and> (tv_sec (timersub en st) = 0 \<and> tv_usec (timersub en st) < frameDuration c \<longrightarrow>
         frame_sleep (frameDuration (c\<lparr>fps := c_div 1000000 (frameDuration c)\<rparr>)) st en
           = Some (frameDuration c - tv_usec (timersub en st)))"
  using assms
  by (simp add: switch_opt_def Let_def and_then_def frame_sleep_def initial_config_def
      DEFAULT_FPS_def c_div_def)

text \<open>\<^verbatim>\<open>--fps abc\<close>: the text reads as 0 and the loop paces itself at the default rate.\<close>

theorem nonpositive_fps_keeps_frame_interval_witness:
  "atoi ''abc'' \<le> 0 \<and> frameDuration initial_config \<noteq> 0
   \<and> getopt_loop ''raspi2raspi'' [(CHR ''f'', ''abc'')] initial_config
       = ([], Next initial_config)
   \<and> frame_sleep (frameDuration initial_config)
        \<lparr> tv_sec = 100, tv_usec = 0 \<rparr> \<lparr> tv_sec = 100, tv_usec = 5000 \<rparr> = Some 95000"
proof -
  have a: "atoi ''abc'' \<le> 0"
    by (simp add: atoi_def isspace_def isdigit_def clamp_int_def)
  have b: "frameDuration initial_config \<noteq> 0"
    by (simp add: initial_config_def DEFAULT_FPS_def c_div_def)
  have c: "frameDuration initial_config = 100000"
    by (simp add: initial_config_def DEFAULT_FPS_def c_div_def)
  note t = nonpositive_fps_keeps_frame_interval [OF a b, of "''raspi2raspi''"
      "\<lparr> tv_sec = 100, tv_usec = 5000 \<rparr>" "\<lparr> tv_sec = 100, tv_usec = 0 \<rparr>"]
  from t have g: "getopt_loop ''raspi2raspi'' [(CHR ''f'', ''abc'')] initial_config
      = ([], Next initial_config)"
    by (elim conjE)
  from t have s: "frame_sleep (frameDuration initial_config)
      \<lparr> tv_sec = 100, tv_usec = 0 \<rparr> \<lparr> tv_sec = 100, tv_usec = 5000 \<rparr> = Some 95000"
    by (simp add: c timersub_def)
  from a b g s show ?thesis by (intro conjI)
qed

section \<open>Runs of \<open>main\<close>\<close>

lemma and_then_assoc: "and_then (and_then m f) g = and_then m (\<lambda>a. and_then (f a) g)"
  by (cases m) (auto simp: and_then_def split: outcome.splits prod.splits)

lemma main_startup:
  "main program w =
     and_then (startup program w)
       (\<lambda>s. and_then (mirror_loop s run_initial (iterations w)) (\<lambda>_. teardown s w))"
  by (simp add: main_def startup_def and_then_assoc)

lemma and_then_cases [consumes 1, case_names Next Exited Faulted Pending]:
  assumes "and_then m f = (tr, out)"
  obtains es a es' where "m = (es, Next a)" "f a = (es', out)" "tr = es @ es'"
  | n where "m = (tr, Exited n)" "out = Exited n"
  | "m = (tr, Faulted)" "out = Faulted"
  | "m = (tr, Pending)" "out = Pending"
  using assms by (cases m) (auto simp: and_then_def split: outcome.splits prod.splits)

lemma list_all_and_then:
  assumes "list_all P (fst m)" "\<And>a. list_all P (fst (f a))"
  shows "list_all P (fst (and_then m f))"
proof (cases m)
  case (Pair es out)
  show ?thesis
  proof (cases out)
    case (Next a)
    with Pair assms(1) assms(2) [of a] show ?thesis
      by (auto simp add: and_then_def split: prod.splits)
  qed (use Pair assms(1) in \<open>simp_all add: and_then_def\<close>)
qed

lemma list_all_if:
  "(b \<Longrightarrow> list_all P (fst x)) \<Longrightarrow> (\<not> b \<Longrightarrow> list_all P (fst y))
    \<Longrightarrow> list_all P (fst (if b then x else y))"
  by simp

lemma fails_cleanly_and_then:
  assumes "fails_cleanly pf m" "\<And>a. fails_cleanly pf (f a)"
  shows "fails_cleanly pf (and_then m f)"
proof (cases m)
  case (Pair es out)
  show ?thesis
  proof (cases out)
    case (Next a)
    with Pair assms(1) assms(2) [of a] show ?thesis
      by (auto simp add: and_then_def fails_cleanly_def split: prod.splits outcome.splits)
  qed (use Pair assms(1) in \<open>simp_all add: and_then_def fails_cleanly_def\<close>)
qed

lemma fails_cleanly_if:
  "(b \<Longrightarrow> fails_cleanly pf x) \<Longrightarrow> (\<not> b \<Longrightarrow> fails_cleanly pf y)
    \<Longrightarrow> fails_cleanly pf (if b then x else y)"
  by simp

lemma fails_cleanly_exit: "fails_cleanly pf (exitAndRemovePidFile EXIT_FAILURE pf)"
  by (simp add: fails_cleanly_def exitAndRemovePidFile_def remove_of_def split: option.splits)

lemma fails_cleanly_emit: "filter is_pidfile_event es = [] \<Longrightarrow> fails_cleanly pf (emit es)"
  by (simp add: fails_cleanly_def emit_def)

lemma fails_cleanly_fatal: "fails_cleanly pf (fatal d pf message)"
  unfolding fatal_def
  by (intro fails_cleanly_and_then fails_cleanly_exit fails_cleanly_emit) simp

lemma fails_cleanly_Next: "fails_cleanly pf ([], Next a)"
  by (simp add: fails_cleanly_def)

lemmas fails_cleanly_intros =
  fails_cleanly_and_then fails_cleanly_if fails_cleanly_exit fails_cleanly_fatal
  fails_cleanly_Next fails_cleanly_emit

lemma fails_cleanly_install: "fails_cleanly pf (install_handlers program c pf w)"
  unfolding install_handlers_def
  by (intro fails_cleanly_intros; simp)

lemma fails_cleanly_setup: "fails_cleanly pf (display_setup program c pf w)"
  unfolding display_setup_def
  by (intro fails_cleanly_intros; simp)

lemma fails_cleanly_body: "fails_cleanly (pfh s) (loop_body s it)"
  unfolding loop_body_def
  by (intro fails_cleanly_intros; simp split: option.splits)

lemma fails_cleanly_loop: "fails_cleanly (pfh s) (mirror_loop s run its)"
proof (induction its arbitrary: run)
  case Nil
  show ?case by (simp add: fails_cleanly_def)
next
  case (Cons it its)
  show ?case
    unfolding mirror_loop.simps Let_def
    by (intro fails_cleanly_intros fails_cleanly_body Cons.IH)
qed


lemma and_then_NextE:
  assumes "and_then m f = (es, Next b)"
  obtains es1 a es2 where "m = (es1, Next a)" "f a = (es2, Next b)" "es = es1 @ es2"
  using assms by (cases m) (auto simp: and_then_def split: outcome.splits prod.splits)

subsection \<open>The PID-file lock along a trace\<close>

lemma lock_held_append:
  "lock_held (a @ b) = (case lock_held a of Some p \<Rightarrow> Some p | None \<Rightarrow> lock_held b)"
  by (induction a rule: lock_held.induct) simp_all

lemma lock_held_filter: "lock_held (filter is_pidfile_event es) = lock_held es"
  by (induction es rule: lock_held.induct) simp_all

lemma lock_held_remove_of: "lock_held (remove_of pf) = None"
  by (simp add: remove_of_def split: option.splits)

lemma remove_is_pid: "is_pidfile_remove e \<Longrightarrow> is_pidfile_event e"
  by (cases e) simp_all

lemma filter_remove_pid:
  "filter is_pidfile_remove (filter is_pidfile_event es) = filter is_pidfile_remove es"
  by (induction es) (auto simp: remove_is_pid)

lemma filter_remove_remove_of: "filter is_pidfile_remove (remove_of pf) = remove_of pf"
  by (simp add: remove_of_def split: option.splits)

lemma fails_cleanly_account:
  assumes "fails_cleanly pf (es, out)"
  shows "lock_held es = None"
    and "filter is_pidfile_remove es = (case out of Exited st \<Rightarrow> remove_of pf | _ \<Rightarrow> [])"
proof -
  have *: "filter is_pidfile_event es = (case out of Exited st \<Rightarrow> remove_of pf | _ \<Rightarrow> [])"
    using assms by (simp add: fails_cleanly_def)
  have "lock_held es = lock_held (filter is_pidfile_event es)"
    by (simp add: lock_held_filter)
  then show "lock_held es = None"
    unfolding * by (simp add: lock_held_remove_of split: outcome.splits)
  have "filter is_pidfile_remove es = filter is_pidfile_remove (filter is_pidfile_event es)"
    by (simp only: filter_remove_pid)
  then show "filter is_pidfile_remove es = (case out of Exited st \<Rightarrow> remove_of pf | _ \<Rightarrow> [])"
    unfolding * by (simp add: filter_remove_remove_of split: outcome.splits)
qed

subsection \<open>How the phases of \<open>main\<close> end\<close>

lemma switch_opt_cases:
  "switch_opt program c opt optarg = (es, out) \<Longrightarrow>
     (es = [] \<and> (\<exists>c'. out = Next c'))
     \<or> (es = printUsage Stdout program \<and> out = Exited EXIT_SUCCESS)
     \<or> (es = printUsage Stderr program \<and> out = Exited EXIT_FAILURE)
     \<or> (es = [] \<and> out = Faulted)"
  by (auto simp: switch_opt_def Let_def split: if_splits)

lemma getopt_loop_cases:
  "getopt_loop program opts c = (es, out) \<Longrightarrow>
     (es = [] \<and> (\<exists>c'. out = Next c'))
     \<or> (es = printUsage Stdout program \<and> out = Exited EXIT_SUCCESS)
     \<or> (es = printUsage Stderr program \<and> out = Exited EXIT_FAILURE)
     \<or> (es = [] \<and> out = Faulted)"
proof (induction opts arbitrary: c es)
  case Nil
  then show ?case by auto
next
  case (Cons o1 opts)
  obtain opt optarg where o1: "o1 = (opt, optarg)" by (cases o1)
  from Cons.prems have *: "and_then (switch_opt program c opt optarg) (getopt_loop program opts) = (es, out)"
    by (simp add: o1)
  from * show ?case
  proof (cases rule: and_then_cases)
    case (Next es1 c1 es2)
    from switch_opt_cases [OF Next(1)] have "es1 = []" by simp
    with Next Cons.IH [OF Next(2)] show ?thesis by simp
  next
    case (Exited n)
    with switch_opt_cases [OF Exited(1)] show ?thesis by simp
  next
    case Faulted
    with switch_opt_cases [OF Faulted(1)] show ?thesis by simp
  next
    case Pending
    with switch_opt_cases [OF Pending(1)] show ?thesis by simp
  qed
qed

lemma lifecycle_account:
  "lifecycle program c w = (es, out) \<Longrightarrow>
     (\<exists>pf. out = Next pf \<and> lock_held es = pf \<and> filter is_pidfile_remove es = [])
     \<or> (out = Exited EXIT_FAILURE \<and> filter is_pidfile_remove es = remove_of (lock_held es))"
  by (auto simp: lifecycle_def and_then_def emit_def exitAndRemovePidFile_def remove_of_def
      split: if_splits option.splits pidfile_open_result.splits)

lemma display_setup_session:
  assumes "display_setup program c pf w = (es, Next s)"
  shows "pfh s = pf \<and> daemon s = isDaemon c \<and> frame_duration s = frameDuration c
    \<and> sourceDisplay s = source_display_handle w \<and> destDisplay s = dest_display_handle w
    \<and> sourceResource s = source_resource_handle w \<and> destResource s = dest_resource_handle w
    \<and> element s = element_handle w \<and> pitch s = image_pitch (dest_width w)"
  using assms unfolding display_setup_def
  by (elim and_then_NextE) auto


subsection \<open>Before the loop\<close>

lemma startup_event_not_teardown: "is_startup_event e \<Longrightarrow> \<not> is_display_teardown e"
  by (cases e) simp_all

lemma list_all_getopt: "list_all is_startup_event (fst (getopt_loop program opts c))"
proof -
  obtain es out where g: "getopt_loop program opts c = (es, out)" by (cases "getopt_loop program opts c")
  from getopt_loop_cases [OF g] show ?thesis
    unfolding g by (auto simp: printUsage_def)
qed

lemmas leaf_defs = emit_def fatal_def and_then_def exitAndRemovePidFile_def

lemma list_all_lifecycle: "list_all is_startup_event (fst (lifecycle program c w))"
  by (simp add: lifecycle_def leaf_defs split: option.splits pidfile_open_result.splits)

lemma list_all_install: "list_all is_startup_event (fst (install_handlers program c pf w))"
  unfolding install_handlers_def
  by (intro list_all_and_then list_all_if; simp add: leaf_defs split: option.splits)

lemma list_all_setup: "list_all is_startup_event (fst (display_setup program c pf w))"
  unfolding display_setup_def
  by (intro list_all_and_then list_all_if; simp add: leaf_defs split: option.splits)

lemma startup_events: "list_all is_startup_event (fst (startup program w))"
  unfolding startup_def
  by (intro list_all_and_then list_all_getopt list_all_lifecycle list_all_install list_all_setup)

lemma startup_no_teardown: "filter is_display_teardown (fst (startup program w)) = []"
  using startup_events [of program w]
  by (auto simp: filter_empty_conv list_all_iff startup_event_not_teardown)

lemma startup_session:
  assumes "startup program w = (es, Next s)"
  shows "sourceDisplay s = source_display_handle w \<and> destDisplay s = dest_display_handle w
    \<and> sourceResource s = source_resource_handle w \<and> destResource s = dest_resource_handle w
    \<and> element s = element_handle w"
  using assms unfolding startup_def
  by (elim and_then_NextE) (auto dest: display_setup_session)

lemma startup_account:
  assumes "startup program w = (es, out)"
  shows "case out of
      Next s \<Rightarrow> pfh s = lock_held es \<and> filter is_pidfile_remove es = []
    | Exited st \<Rightarrow> filter is_pidfile_remove es = remove_of (lock_held es)
        \<and> (st = EXIT_SUCCESS \<and> es = printUsage Stdout program \<or> st = EXIT_FAILURE)
    | _ \<Rightarrow> filter is_pidfile_remove es = []"
proof -
  let ?rest = "\<lambda>c pf. and_then (install_handlers program c pf w) (\<lambda>_. display_setup program c pf w)"
  have rest: "fails_cleanly pf (?rest c pf)" for c pf
    by (intro fails_cleanly_and_then fails_cleanly_install fails_cleanly_setup)
  have rest_s: "pfh s = pf" if "?rest c pf = (es', Next s)" for c pf es' s
    using that by (elim and_then_NextE) (auto dest: display_setup_session)
  have usage: "filter is_pidfile_remove (printUsage fp program) = []"
    "lock_held (printUsage fp program) = None" for fp
    by (simp_all add: printUsage_def)
  from assms [unfolded startup_def] show ?thesis
  proof (cases rule: and_then_cases)
    case (Next esG c esL)
    from getopt_loop_cases [OF Next(1)] have esG: "esG = []" by simp
    from Next(2) show ?thesis
    proof (cases rule: and_then_cases)
      case L: (Next es1 pf es2)
      from lifecycle_account [OF L(1)] have l: "lock_held es1 = pf" "filter is_pidfile_remove es1 = []"
        by simp_all
      from rest [of pf c] L(2) have fc: "fails_cleanly pf (es2, out)" by simp
      note acc = fails_cleanly_account [OF fc]
      have fail: "st = EXIT_FAILURE" if "out = Exited st" for st
        using fc that by (simp add: fails_cleanly_def)
      have lh: "lock_held es = pf"
        using esG Next(3) L(3) l(1) acc(1) by (simp add: lock_held_append split: option.splits)
      have rm: "filter is_pidfile_remove es = (case out of Exited st \<Rightarrow> remove_of pf | _ \<Rightarrow> [])"
        using esG Next(3) L(3) l(2) acc(2) by simp
      show ?thesis
      proof (cases out)
        case s: (Next s)
        with L(2) have "pfh s = pf" by (auto dest: rest_s)
        with s lh rm show ?thesis by simp
      next
        case (Exited st)
        with lh rm fail show ?thesis by simp
      next
        case Faulted
        with rm show ?thesis by simp
      next
        case Pending
        with rm show ?thesis by simp
      qed
    next
      case (Exited n)
      with lifecycle_account [OF Exited(1)] esG Next(3) show ?thesis by simp
    next
      case Faulted
      with lifecycle_account [OF Faulted(1)] show ?thesis by simp
    next
      case Pending
      with lifecycle_account [OF Pending(1)] show ?thesis by simp
    qed
  next
    case (Exited n)
    with getopt_loop_cases [OF Exited(1)] usage show ?thesis
      by (auto simp: remove_of_def)
  next
    case Faulted
    with getopt_loop_cases [OF Faulted(1)] show ?thesis by auto
  next
    case Pending
    with getopt_loop_cases [OF Pending(1)] show ?thesis by auto
  qed
qed

subsection \<open>The loop and the shape of a run\<close>

lemma list_all_body: "list_all (\<lambda>e. \<not> is_display_teardown e) (fst (loop_body s it))"
  unfolding loop_body_def
  by (intro list_all_and_then list_all_if; simp add: leaf_defs split: option.splits)

lemma list_all_loop: "list_all (\<lambda>e. \<not> is_display_teardown e) (fst (mirror_loop s run its))"
proof (induction its arbitrary: run)
  case Nil
  show ?case by simp
next
  case (Cons it its)
  show ?case
    unfolding mirror_loop.simps Let_def
    by (intro list_all_and_then list_all_if list_all_body Cons.IH) simp
qed

lemma loop_no_teardown: "filter is_display_teardown (fst (mirror_loop s run its)) = []"
  using list_all_loop [of s run its] by (auto simp: filter_empty_conv list_all_iff)

lemma main_cases [consumes 1, case_names Startup Loop Teardown]:
  assumes "main program w = (tr, out)"
  obtains out' where "startup program w = (tr, out')" "\<forall>s. out' \<noteq> Next s"
      "(\<exists>n. out' = Exited n \<and> out = Exited n) \<or> (out' = Faulted \<and> out = Faulted)
        \<or> (out' = Pending \<and> out = Pending)"
  | pre s es where "startup program w = (pre, Next s)"
      "mirror_loop s run_initial (iterations w) = (es, out)" "out \<noteq> Next ()" "tr = pre @ es"
  | pre s es where "startup program w = (pre, Next s)"
      "mirror_loop s run_initial (iterations w) = (es, Next ())"
      "tr = pre @ es @ fst (teardown s w)" "out = Exited 0"
  using assms [unfolded main_startup]
proof (cases rule: and_then_cases)
  case (Next pre s es')
  from Next(2) show ?thesis
  proof (cases rule: and_then_cases)
    case L: (Next es u es'')
    have "snd (teardown s w) = Exited 0" by (simp add: teardown_def)
    with L(2) have o: "out = Exited 0" by simp
    from L(2) have e: "es'' = fst (teardown s w)" by simp
    show ?thesis
    proof (rule that(3))
      show "startup program w = (pre, Next s)" by (rule Next(1))
      show "mirror_loop s run_initial (iterations w) = (es, Next ())" using L(1) by simp
      show "tr = pre @ es @ fst (teardown s w)" using Next(3) L(3) e by simp
      show "out = Exited 0" by (rule o)
    qed
  next
    case (Exited n)
    show ?thesis
    proof (rule that(2))
      show "startup program w = (pre, Next s)" by (rule Next(1))
      show "mirror_loop s run_initial (iterations w) = (es', out)" using Exited by simp
      show "out \<noteq> Next ()" using Exited by simp
      show "tr = pre @ es'" by (rule Next(3))
    qed
  next
    case Faulted
    show ?thesis
    proof (rule that(2))
      show "startup program w = (pre, Next s)" by (rule Next(1))
      show "mirror_loop s run_initial (iterations w) = (es', out)" using Faulted by simp
      show "out \<noteq> Next ()" using Faulted by simp
      show "tr = pre @ es'" by (rule Next(3))
    qed
  next
    case Pending
    show ?thesis
    proof (rule that(2))
      show "startup program w = (pre, Next s)" by (rule Next(1))
      show "mirror_loop s run_initial (iterations w) = (es', out)" using Pending by simp
      show "out \<noteq> Next ()" using Pending by simp
      show "tr = pre @ es'" by (rule Next(3))
    qed
  qed
next
  case (Exited n)
  then show ?thesis by (intro that(1) [of "Exited n"]) simp_all
next
  case Faulted
  then show ?thesis by (intro that(1) [of Faulted]) simp_all
next
  case Pending
  then show ?thesis by (intro that(1) [of Pending]) simp_all
qed

lemma teardown_events:
  "filter is_display_teardown (fst (teardown s w)) =
     [Element_remove (teardown_update_handle w) (element s), Resource_delete (sourceResource s),
      Resource_delete (destResource s), Display_close (sourceDisplay s),
      Display_close (destDisplay s), Free_image]"
  "filter is_pidfile_remove (fst (teardown s w)) = remove_of (pfh s)"
  "lock_held (fst (teardown s w)) = None"
  by (simp_all add: teardown_def remove_of_def split: option.splits)

lemma main_sample_world:
  "main ''raspi2raspi'' sample_world =
     ([Signal_install 2 True, Signal_install 15 True, Bcm_host_init,
       Display_open 0 1, Display_get_info 1 0, Display_open 5 2, Display_get_info 2 0,
       MessageLog False LOG_INFO ''copying from [%d] %dx%d to [%d] %dx%d''
         [0, 1920, 1080, 5, 1920, 1080],
       Malloc 8294400 True, Resource_create 1920 1080 3, Resource_create 1920 1080 4,
       Update_start 0 5, Element_add 5 2 4 6, Update_submit_sync 5,
       Gettimeofday, Snapshot 1 3, Resource_read_data 3 7680, Resource_write_data 4 7680,
       Update_start 10 7, Element_change_source 7 6 4, Update_submit_sync 7, Gettimeofday,
       Usleep 95000,
       Update_start 0 8, Element_remove 8 6, Update_submit_sync 8,
       Resource_delete 3, Resource_delete 4, Display_close 1, Display_close 2, Free_image,
       MessageLog False LOG_INFO ''exiting'' []],
      Exited 0)"
  by (simp add: eval_defs)

lemma main_world_snapshot_fails:
  "main ''raspi2raspi'' world_snapshot_fails =
     ([Signal_install 2 True, Signal_install 15 True, Bcm_host_init,
       Display_open 0 1, Display_get_info 1 0, Display_open 5 2, Display_get_info 2 0,
       MessageLog False LOG_INFO ''copying from [%d] %dx%d to [%d] %dx%d''
         [0, 1920, 1080, 5, 1920, 1080],
       Malloc 8294400 True, Resource_create 1920 1080 3, Resource_create 1920 1080 4,
       Update_start 0 5, Element_add 5 2 4 6, Update_submit_sync 5,
       Gettimeofday, Snapshot 1 3,
       MessageLog False LOG_ERR ''DispmanX snapshot failed'' []],
      Exited 1)"
  by (simp add: world_snapshot_fails_def eval_defs)

section \<open>Teardown\<close>

text \<open>
  C2 as stated fails.  When the first snapshot fails the program has opened both
  displays, allocated the buffer, created both resources and added the element; it then
  logs the failure and exits with status 1, and none of the teardown calls is made.
\<close>

theorem fatal_path_skips_teardown_counterexample:
  "snd (main ''raspi2raspi'' world_snapshot_fails) = Exited EXIT_FAILURE
   \<and> Element_add 5 2 4 6 \<in> set (fst (main ''raspi2raspi'' world_snapshot_fails))
   \<and> filter is_display_teardown (fst (main ''raspi2raspi'' world_snapshot_fails)) = []"
  by (simp add: main_world_snapshot_fails EXIT_FAILURE_def)

text \<open>
  C2, amended.  A run that exits with status 0 is either the \<^verbatim>\<open>--help\<close> exit or the
  clean loop exit, and on the clean loop exit the teardown sequence runs exactly once, in
  order: the element is removed, both resources are deleted, both display handles are
  closed and the buffer is freed.  On every other path, the fatal ones included, none
  of these calls is made.  On every exit path the PID-file lock is released exactly once
  if it is held, and not otherwise.
\<close>

theorem teardown_on_exit_paths:
  assumes "main program w = (tr, out)"
  shows "(out = Exited EXIT_SUCCESS \<longrightarrow>
            tr = printUsage Stdout program \<or> filter is_display_teardown tr = teardown_sequence w)
    \<and> (out \<noteq> Exited EXIT_SUCCESS \<longrightarrow> filter is_display_teardown tr = [])
    \<and> ((\<exists>st. out = Exited st) \<longrightarrow> filter is_pidfile_remove tr = remove_of (lock_held tr))"
  using assms
proof (cases rule: main_cases)
  case (Startup out')
  from startup_no_teardown [of program w] Startup(1)
  have nt: "filter is_display_teardown tr = []" by simp
  from startup_account [OF Startup(1)] Startup(2,3) nt show ?thesis
    by (auto simp: EXIT_SUCCESS_def EXIT_FAILURE_def)
next
  case (Loop pre s es)
  from startup_no_teardown [of program w] Loop(1)
  have nt: "filter is_display_teardown pre = []" by simp
  from loop_no_teardown [of s run_initial "iterations w"] Loop(2)
  have nl: "filter is_display_teardown es = []" by simp
  from fails_cleanly_loop [of s run_initial "iterations w"] Loop(2)
  have fc: "fails_cleanly (pfh s) (es, out)" by simp
  note acc = fails_cleanly_account [OF fc]
  from startup_account [OF Loop(1)]
  have st: "pfh s = lock_held pre" "filter is_pidfile_remove pre = []" by simp_all
  have "out \<noteq> Exited EXIT_SUCCESS"
    using fc by (auto simp: fails_cleanly_def EXIT_SUCCESS_def EXIT_FAILURE_def)
  moreover have "lock_held tr = pfh s"
    using Loop(4) st(1) acc(1) by (simp add: lock_held_append split: option.splits)
  ultimately show ?thesis
    using Loop(4) nt nl st acc(2) by auto
next
  case (Teardown pre s es)
  from startup_no_teardown [of program w] Teardown(1)
  have nt: "filter is_display_teardown pre = []" by simp
  from loop_no_teardown [of s run_initial "iterations w"] Teardown(2)
  have nl: "filter is_display_teardown es = []" by simp
  from fails_cleanly_loop [of s run_initial "iterations w"] Teardown(2)
  have fc: "fails_cleanly (pfh s) (es, Next ())" by simp
  note acc = fails_cleanly_account [OF fc]
  from startup_account [OF Teardown(1)]
  have st: "pfh s = lock_held pre" "filter is_pidfile_remove pre = []" by simp_all
  have lh: "lock_held tr = pfh s"
    using Teardown(3) st(1) acc(1) by (simp add: lock_held_append teardown_events split: option.splits)
  have td: "filter is_display_teardown tr = teardown_sequence w"
    using Teardown(3) nt nl startup_session [OF Teardown(1)]
    by (simp add: teardown_events teardown_sequence_def)
  have rm: "filter is_pidfile_remove tr = remove_of (pfh s)"
    using Teardown(3) st(2) acc(2) by (simp add: teardown_events)
  from lh td rm Teardown(4) show ?thesis by (simp add: EXIT_SUCCESS_def)
qed


text \<open>The clean run of the sample machine, and the run whose first snapshot fails.\<close>

theorem teardown_on_exit_paths_witness:
  "main ''raspi2raspi'' sample_world
     = (fst (main ''raspi2raspi'' sample_world), Exited EXIT_SUCCESS)
   \<and> filter is_display_teardown (fst (main ''raspi2raspi'' sample_world))
     = [Element_remove 8 6, Resource_delete 3, Resource_delete 4,
        Display_close 1, Display_close 2, Free_image]
   \<and> main ''raspi2raspi'' world_snapshot_fails
     = (fst (main ''raspi2raspi'' world_snapshot_fails), Exited EXIT_FAILURE)
   \<and> filter is_display_teardown (fst (main ''raspi2raspi'' world_snapshot_fails)) = []"
proof -
  have a: "main ''raspi2raspi'' sample_world
      = (fst (main ''raspi2raspi'' sample_world), Exited EXIT_SUCCESS)"
    by (simp add: main_sample_world EXIT_SUCCESS_def)
  have b: "main ''raspi2raspi'' world_snapshot_fails
      = (fst (main ''raspi2raspi'' world_snapshot_fails), Exited EXIT_FAILURE)"
    by (simp add: main_world_snapshot_fails EXIT_FAILURE_def)
  have u: "fst (main ''raspi2raspi'' sample_world) \<noteq> printUsage Stdout ''raspi2raspi''"
    by (simp add: main_sample_world printUsage_def)
  have t: "teardown_sequence sample_world
      = [Element_remove 8 6, Resource_delete 3, Resource_delete 4,
         Display_close 1, Display_close 2, Free_image]"
    by (simp add: teardown_sequence_def sample_world_def)
  from teardown_on_exit_paths [OF a] u t
  have 1: "filter is_display_teardown (fst (main ''raspi2raspi'' sample_world))
      = [Element_remove 8 6, Resource_delete 3, Resource_delete 4,
         Display_close 1, Display_close 2, Free_image]"
    by simp
  from teardown_on_exit_paths [OF b]
  have 2: "filter is_display_teardown (fst (main ''raspi2raspi'' world_snapshot_fails)) = []"
    by (simp add: EXIT_SUCCESS_def EXIT_FAILURE_def)
  from a b 1 2 show ?thesis by (intro conjI)
qed

section \<open>Failures in the flip\<close>

subsection \<open>Results that are never read\<close>

lemma loop_body_flip_results: "loop_body s (with_flip_results f g it) = loop_body s it"
  by (simp add: loop_body_def with_flip_results_def)

lemma mirror_loop_flip_results:
  "mirror_loop s run (map (with_flip_results f g) its) = mirror_loop s run its"
proof (induction its arbitrary: run)
  case Nil
  show ?case by simp
next
  case (Cons it its)
  have "signals (with_flip_results f g it) = signals it"
    by (simp add: with_flip_results_def)
  then show ?case by (simp add: loop_body_flip_results Cons.IH Let_def)
qed

lemma lifecycle_submit_results:
  "lifecycle program c (with_submit_results r f g w) = lifecycle program c w"
  by (simp add: lifecycle_def with_submit_results_def
      cong: if_cong option.case_cong pidfile_open_result.case_cong)

lemma install_submit_results:
  "install_handlers program c pf (with_submit_results r f g w) = install_handlers program c pf w"
  by (simp add: install_handlers_def with_submit_results_def)

lemma setup_submit_results:
  "display_setup program c pf (with_submit_results r f g w) = display_setup program c pf w"
  by (simp add: display_setup_def with_submit_results_def)

lemma teardown_submit_results: "teardown s (with_submit_results r f g w) = teardown s w"
  by (simp add: teardown_def with_submit_results_def)

lemma main_submit_results: "main program (with_submit_results r f g w) = main program w"
proof -
  have "getopt_results (with_submit_results r f g w) = getopt_results w"
    "iterations (with_submit_results r f g w) = map (with_flip_results f g) (iterations w)"
    by (simp_all add: with_submit_results_def)
  then show ?thesis
    by (simp only: main_def lifecycle_submit_results install_submit_results
        setup_submit_results teardown_submit_results mirror_loop_flip_results)
qed

subsection \<open>A per-frame update that cannot be started\<close>

lemma loop_body_null_update:
  assumes "Update_start 10 0 \<in> set (fst (loop_body s it))"
  shows "loop_body s it =
    ([Gettimeofday, Snapshot (sourceDisplay s) (sourceResource s),
      Resource_read_data (sourceResource s) (pitch s),
      Resource_write_data (destResource s) (pitch s),
      Update_start 10 0,
      MessageLog (daemon s) LOG_ERR ''display update failed'' []] @ remove_of (pfh s),
     Exited EXIT_FAILURE)"
  using assms
  by (auto simp add: loop_body_def and_then_def emit_def fatal_def exitAndRemovePidFile_def
      remove_of_def split: option.splits if_splits)

lemma remove_of_all_remove: "list_all is_pidfile_remove (remove_of pf)"
  by (simp add: remove_of_def split: option.splits)

lemma mirror_loop_null_update:
  assumes "mirror_loop s run its = (es, out)" "Update_start 10 0 \<in> set es"
  shows "out = Exited EXIT_FAILURE
    \<and> (\<exists>pre. es = pre @ [Update_start 10 0,
          MessageLog (daemon s) LOG_ERR ''display update failed'' []] @ remove_of (pfh s))"
  using assms
proof (induction its arbitrary: run es)
  case Nil
  then show ?case by simp
next
  case (Cons it its)
  let ?run = "foldl (\<lambda>r sig. signalHandler sig r) run (signals it)"
  show ?case
  proof (cases ?run)
    case False
    with Cons.prems show ?thesis by (simp add: Let_def)
  next
    case True
    with Cons.prems(1)
    have *: "and_then (loop_body s it) (\<lambda>_. mirror_loop s ?run its) = (es, out)"
      by (simp add: Let_def)
    from * show ?thesis
    proof (cases rule: and_then_cases)
      case (Next es1 u es2)
      have "Update_start 10 0 \<notin> set es1"
      proof
        assume "Update_start 10 0 \<in> set es1"
        then have "Update_start 10 0 \<in> set (fst (loop_body s it))" using Next(1) by simp
        from loop_body_null_update [OF this] Next(1) show False by simp
      qed
      with Cons.prems(2) Next(3) have "Update_start 10 0 \<in> set es2" by simp
      from Cons.IH [OF Next(2) this] Next(3) show ?thesis
        by (metis append.assoc)
    next
      case (Exited n)
      with Cons.prems(2) have "Update_start 10 0 \<in> set (fst (loop_body s it))" by simp
      from loop_body_null_update [OF this] Exited show ?thesis
        by (metis Pair_inject outcome.inject(2) append.assoc append_Cons append_Nil)
    next
      case Faulted
      with Cons.prems(2) have "Update_start 10 0 \<in> set (fst (loop_body s it))" by simp
      from loop_body_null_update [OF this] Faulted show ?thesis by simp
    next
      case Pending
      with Cons.prems(2) have "Update_start 10 0 \<in> set (fst (loop_body s it))" by simp
      from loop_body_null_update [OF this] Pending show ?thesis by simp
    qed
  qed
qed

lemma startup_no_frame_update: "Update_start 10 0 \<notin> set (fst (startup program w))"
  using startup_events [of program w] by (auto simp: list_all_iff)

lemma main_null_update_aux:
  assumes "main program w = (tr, out)" "Update_start 10 0 \<in> set tr"
  shows "out = Exited EXIT_FAILURE
    \<and> (\<exists>pre d post. tr = pre @ [Update_start 10 0,
          MessageLog d LOG_ERR ''display update failed'' []] @ post
        \<and> list_all is_pidfile_remove post)"
  using assms(1)
proof (cases rule: main_cases)
  case (Startup out')
  with startup_no_frame_update [of program w] assms(2) show ?thesis by simp
next
  case (Loop pre s es)
  from startup_no_frame_update [of program w] Loop(1) have "Update_start 10 0 \<notin> set pre" by simp
  with assms(2) Loop(4) have "Update_start 10 0 \<in> set es" by simp
  from mirror_loop_null_update [OF Loop(2) this] obtain pre' where
    o: "out = Exited EXIT_FAILURE"
    and e: "es = pre' @ [Update_start 10 0,
          MessageLog (daemon s) LOG_ERR ''display update failed'' []] @ remove_of (pfh s)"
    by blast
  from e Loop(4) have "tr = (pre @ pre') @ [Update_start 10 0,
          MessageLog (daemon s) LOG_ERR ''display update failed'' []] @ remove_of (pfh s)"
    by simp
  with o remove_of_all_remove [of "pfh s"] show ?thesis by blast
next
  case (Teardown pre s es)
  from startup_no_frame_update [of program w] Teardown(1) have "Update_start 10 0 \<notin> set pre" by simp
  moreover have "Update_start 10 0 \<notin> set (fst (teardown s w))"
    by (simp add: teardown_def remove_of_def split: option.splits)
  ultimately have "Update_start 10 0 \<in> set es" using assms(2) Teardown(3) by simp
  from mirror_loop_null_update [OF Teardown(2) this] show ?thesis by simp
qed

text \<open>
  C5 as stated fails.  On a machine where \<^verbatim>\<open>vc_dispmanx_element_change_source\<close> and
  every \<^verbatim>\<open>vc_dispmanx_update_submit_sync\<close> before the teardown report a failure
  (the submit at setup too), the run is the run of the machine where they succeed: the calls
  are made, nothing is logged at \<^verbatim>\<open>LOG_ERR\<close>, and the program exits with status 0
  after the signal.
\<close>

theorem submit_failure_not_fatal_counterexample:
  "setup_submit_returns world_submit_fails \<noteq> 0
   \<and> list_all (\<lambda>it. change_source_result it \<noteq> 0 \<and> submit_result it \<noteq> 0)
        (iterations world_submit_fails)
   \<and> Update_submit_sync 5 \<in> set (fst (main ''raspi2raspi'' world_submit_fails))
   \<and> Element_change_source 7 6 4 \<in> set (fst (main ''raspi2raspi'' world_submit_fails))
   \<and> Update_submit_sync 7 \<in> set (fst (main ''raspi2raspi'' world_submit_fails))
   \<and> filter is_error_log (fst (main ''raspi2raspi'' world_submit_fails)) = []
   \<and> snd (main ''raspi2raspi'' world_submit_fails) = Exited 0"
proof -
  have "main ''raspi2raspi'' world_submit_fails = main ''raspi2raspi'' sample_world"
    by (simp add: world_submit_fails_def main_submit_results)
  moreover have "setup_submit_returns world_submit_fails \<noteq> 0"
    "list_all (\<lambda>it. change_source_result it \<noteq> 0 \<and> submit_result it \<noteq> 0)
        (iterations world_submit_fails)"
    by (simp_all add: world_submit_fails_def with_submit_results_def with_flip_results_def
        sample_world_def)
  ultimately show ?thesis by (simp add: main_sample_world)
qed

text \<open>
  C5, amended.  In the per-frame flip only the failure to start the compositor update
  is fatal: when \<^verbatim>\<open>vc_dispmanx_update_start(10)\<close> returns no handle the program logs
  "display update failed" next, does nothing after it but release the PID file, and exits
  with a non-zero status.  The results of re-pointing the element's source, of the
  per-frame synchronous submit and of the initial update submission at setup are never
  read: whatever they are, the run is the same.
\<close>

theorem flip_failures:
  "main program (with_submit_results r f g w) = main program w
   \<and> EXIT_FAILURE \<noteq> 0
   \<and> (Update_start 10 0 \<in> set (fst (main program w)) \<longrightarrow>
        snd (main program w) = Exited EXIT_FAILURE
        \<and> (\<exists>pre d post.
              fst (main program w)
                = pre @ [Update_start 10 0,
                         MessageLog d LOG_ERR ''display update failed'' []] @ post
              \<and> list_all is_pidfile_remove post))"
proof (intro conjI impI)
  show "main program (with_submit_results r f g w) = main program w"
    by (rule main_submit_results)
  show "EXIT_FAILURE \<noteq> 0" by (simp add: EXIT_FAILURE_def)
next
  assume a: "Update_start 10 0 \<in> set (fst (main program w))"
  have m: "main program w = (fst (main program w), snd (main program w))" by simp
  from main_null_update_aux [OF m a]
  show "snd (main program w) = Exited EXIT_FAILURE"
    and "\<exists>pre d post.
              fst (main program w)
                = pre @ [Update_start 10 0,
                         MessageLog d LOG_ERR ''display update failed'' []] @ post
              \<and> list_all is_pidfile_remove post"
    by simp_all
qed

lemma main_world_update_fails:
  "main ''raspi2raspi'' world_update_fails =
     ([Signal_install 2 True, Signal_install 15 True, Bcm_host_init,
       Display_open 0 1, Display_get_info 1 0, Display_open 5 2, Display_get_info 2 0,
       MessageLog False LOG_INFO ''copying from [%d] %dx%d to [%d] %dx%d''
         [0, 1920, 1080, 5, 1920, 1080],
       Malloc 8294400 True, Resource_create 1920 1080 3, Resource_create 1920 1080 4,
       Update_start 0 5, Element_add 5 2 4 6, Update_submit_sync 5,
       Gettimeofday, Snapshot 1 3, Resource_read_data 3 7680, Resource_write_data 4 7680,
       Update_start 10 0,
       MessageLog False LOG_ERR ''display update failed'' []],
      Exited 1)"
  by (simp add: world_update_fails_def eval_defs)

text \<open>The first per-frame update start fails: the run ends there with status 1.\<close>

theorem flip_failures_witness:
  "Update_start 10 0 \<in> set (fst (main ''raspi2raspi'' world_update_fails))
   \<and> snd (main ''raspi2raspi'' world_update_fails) = Exited EXIT_FAILURE
   \<and> main ''raspi2raspi'' world_submit_fails = main ''raspi2raspi'' sample_world"
proof -
  have a: "Update_start 10 0 \<in> set (fst (main ''raspi2raspi'' world_update_fails))"
    by (simp add: main_world_update_fails)
  note t = flip_failures [of "''raspi2raspi''" "- 1" "\<lambda>_. - 1" "\<lambda>_. - 1" world_update_fails]
  from t a have b: "snd (main ''raspi2raspi'' world_update_fails) = Exited EXIT_FAILURE"
    by blast
  have c: "main ''raspi2raspi'' world_submit_fails = main ''raspi2raspi'' sample_world"
    using flip_failures [of "''raspi2raspi''" "- 1" "\<lambda>_. - 1" "\<lambda>_. - 1" sample_world]
    by (simp add: world_submit_fails_def)
  from a b c show ?thesis by (intro conjI)
qed

section \<open>The PID file\<close>

text \<open>
  C8.  In daemon mode with a PID-file path, when \<^verbatim>\<open>pidfile_open\<close> returns
  \<^verbatim>\<open>NULL\<close> because another process holds the lock, the whole run is two calls: the
  failed open and one line on the error stream that names the other process's ID; the
  exit status is \<^verbatim>\<open>EXIT_FAILURE\<close>, which is not 0.  No \<^verbatim>\<open>daemon\<close> call and no
  display call is made.
\<close>

theorem pidfile_contention:
  assumes "getopt_loop program (getopt_results w) initial_config = (es, Next c)"
    and "isDaemon c" and "pidfile c = Some path"
    and "pidfile_open_returns w = Pidfile_null otherpid"
  shows "main program w =
      ([Pidfile_open path False,
        Fprintf Stderr (program @ '' is already running '' @ show_int otherpid @ [CHR 0x0A])],
       Exited EXIT_FAILURE)
    \<and> EXIT_FAILURE \<noteq> 0"
proof -
  from getopt_loop_cases [OF assms(1)] have "es = []" by simp
  with assms show ?thesis
    by (simp add: main_def and_then_def lifecycle_def EXIT_FAILURE_def)
qed

text \<open>\<^verbatim>\<open>--pidfile /tmp/x.pid --daemon\<close> while process 4242 holds the lock.\<close>

theorem pidfile_contention_witness:
  "getopt_loop ''raspi2raspi'' (getopt_results world_pid_contention) initial_config
     = ([], Next (initial_config\<lparr>isDaemon := True, pidfile := Some ''/tmp/x.pid''\<rparr>))
   \<and> pidfile_open_returns world_pid_contention = Pidfile_null 4242
   \<and> main ''raspi2raspi'' world_pid_contention
     = ([Pidfile_open ''/tmp/x.pid'' False,
         Fprintf Stderr (''raspi2raspi is already running 4242'' @ [CHR 0x0A])],
        Exited EXIT_FAILURE)"
proof -
  have g: "getopt_loop ''raspi2raspi'' (getopt_results world_pid_contention) initial_config
     = ([], Next (initial_config\<lparr>isDaemon := True, pidfile := Some ''/tmp/x.pid''\<rparr>))"
    by (simp add: world_pid_contention_def sample_world_def switch_opt_def and_then_def)
  have p: "pidfile_open_returns world_pid_contention = Pidfile_null 4242"
    by (simp add: world_pid_contention_def sample_world_def)
  have s: "show_int 4242 = ''4242''"
    by (simp add: show_int_def show_nat.simps)
  from pidfile_contention [OF g _ _ p, of "''/tmp/x.pid''"] s
  have "main ''raspi2raspi'' world_pid_contention
     = ([Pidfile_open ''/tmp/x.pid'' False,
         Fprintf Stderr (''raspi2raspi is already running 4242'' @ [CHR 0x0A])],
        Exited EXIT_FAILURE)"
    by simp
  with g p show ?thesis by (intro conjI)
qed

lemma switch_opt_isDaemon:
  "switch_opt program c opt optarg = (es, Next c') \<Longrightarrow> opt \<noteq> CHR ''D'' \<Longrightarrow> isDaemon c' = isDaemon c"
  by (auto simp: switch_opt_def Let_def split: if_splits)

lemma getopt_loop_isDaemon:
  "getopt_loop program opts c = (es, Next c') \<Longrightarrow> CHR ''D'' \<notin> fst ` set opts
    \<Longrightarrow> isDaemon c' = isDaemon c"
proof (induction opts arbitrary: c es)
  case Nil
  then show ?case by simp
next
  case (Cons o1 opts)
  obtain opt optarg where o1: "o1 = (opt, optarg)" by (cases o1)
  from Cons.prems(1) obtain es1 c1 es2 where
    1: "switch_opt program c opt optarg = (es1, Next c1)"
    and 2: "getopt_loop program opts c1 = (es2, Next c')"
    unfolding o1 getopt_loop.simps by (elim and_then_NextE)
  from Cons.prems(2) o1 have "opt \<noteq> CHR ''D''" "CHR ''D'' \<notin> fst ` set opts" by auto
  with switch_opt_isDaemon [OF 1] Cons.IH [OF 2] show ?case by simp
qed

lemma startup_foreground:
  assumes "CHR ''D'' \<notin> fst ` set (getopt_results w)" "startup program w = (es, out)"
  shows "filter is_pidfile_event es = [] \<and> (\<forall>s. out = Next s \<longrightarrow> pfh s = None)"
proof -
  let ?rest = "\<lambda>c pf. and_then (install_handlers program c pf w) (\<lambda>_. display_setup program c pf w)"
  have rest: "fails_cleanly pf (?rest c pf)" for c pf
    by (intro fails_cleanly_and_then fails_cleanly_install fails_cleanly_setup)
  have rest_s: "pfh s = pf" if "?rest c pf = (es', Next s)" for c pf es' s
    using that by (elim and_then_NextE) (auto dest: display_setup_session)
  from assms(2) [unfolded startup_def] show ?thesis
  proof (cases rule: and_then_cases)
    case (Next esG c esL)
    from getopt_loop_cases [OF Next(1)] have esG: "esG = []" by simp
    from getopt_loop_isDaemon [OF Next(1) assms(1)] have "\<not> isDaemon c"
      by (simp add: initial_config_def)
    then have l: "lifecycle program c w = ([], Next None)" by (simp add: lifecycle_def)
    from Next(2) have r: "?rest c None = (esL, out)" by (simp add: l and_then_def)
    from rest [of None c] r have "fails_cleanly None (esL, out)" by simp
    then have "filter is_pidfile_event esL = []"
      by (simp add: fails_cleanly_def remove_of_def split: outcome.splits)
    moreover have "pfh s = None" if "out = Next s" for s
      using r that by (auto dest: rest_s)
    ultimately show ?thesis using esG Next(3) by simp
  next
    case (Exited n)
    with getopt_loop_cases [OF Exited(1)] show ?thesis by (auto simp: printUsage_def)
  next
    case Faulted
    with getopt_loop_cases [OF Faulted(1)] show ?thesis by auto
  next
    case Pending
    with getopt_loop_cases [OF Pending(1)] show ?thesis by auto
  qed
qed

text \<open>
  C10.  When the options do not include \<^verbatim>\<open>-D\<close> / \<^verbatim>\<open>--daemon\<close>, whatever
  \<^verbatim>\<open>--pidfile\<close> paths they give, no run of the program, however it ends, contains a
  \<^verbatim>\<open>pidfile_open\<close>, a \<^verbatim>\<open>pidfile_write\<close> or a \<^verbatim>\<open>pidfile_remove\<close>: the handle
  stays \<^verbatim>\<open>NULL\<close>, so the removal at exit is not called.
\<close>

theorem pidfile_ignored_in_foreground:
  assumes "CHR ''D'' \<notin> fst ` set (getopt_results w)"
  shows "filter is_pidfile_event (fst (main program w)) = []"
proof -
  obtain tr out where m: "main program w = (tr, out)" by (cases "main program w")
  have loop: "filter is_pidfile_event es = []"
    if "mirror_loop s run_initial (iterations w) = (es, out')" "pfh s = None" for s es and out' :: "unit outcome"
  proof -
    from fails_cleanly_loop [of s run_initial "iterations w"] that
    have "fails_cleanly None (es, out')" by simp
    then show ?thesis by (simp add: fails_cleanly_def remove_of_def split: outcome.splits)
  qed
  from m have "filter is_pidfile_event tr = []"
  proof (cases rule: main_cases)
    case (Startup out')
    with startup_foreground [OF assms Startup(1)] show ?thesis by simp
  next
    case (Loop pre s es)
    from startup_foreground [OF assms Loop(1)] have "filter is_pidfile_event pre = []" "pfh s = None"
      by simp_all
    with loop [OF Loop(2)] Loop(4) show ?thesis by simp
  next
    case (Teardown pre s es)
    from startup_foreground [OF assms Teardown(1)] have "filter is_pidfile_event pre = []" "pfh s = None"
      by simp_all
    with loop [OF Teardown(2)] Teardown(3) show ?thesis by (simp add: teardown_def)
  qed
  with m show ?thesis by simp
qed

text \<open>\<^verbatim>\<open>--pidfile /tmp/x.pid\<close> without \<^verbatim>\<open>--daemon\<close>: the path is parsed and never used.\<close>

theorem pidfile_ignored_in_foreground_witness:
  "CHR ''D'' \<notin> fst ` set (getopt_results world_pidfile_foreground)
   \<and> getopt_loop ''raspi2raspi'' (getopt_results world_pidfile_foreground) initial_config
     = ([], Next (initial_config\<lparr>pidfile := Some ''/tmp/x.pid''\<rparr>))
   \<and> filter is_pidfile_event (fst (main ''raspi2raspi'' world_pidfile_foreground)) = []"
proof -
  have d: "CHR ''D'' \<notin> fst ` set (getopt_results world_pidfile_foreground)"
    by (simp add: world_pidfile_foreground_def sample_world_def)
  have g: "getopt_loop ''raspi2raspi'' (getopt_results world_pidfile_foreground) initial_config
     = ([], Next (initial_config\<lparr>pidfile := Some ''/tmp/x.pid''\<rparr>))"
    by (simp add: world_pidfile_foreground_def sample_world_def switch_opt_def and_then_def)
  from d g pidfile_ignored_in_foreground [OF d, of "''raspi2raspi''"] show ?thesis
    by (intro conjI)
qed

section \<open>A division by zero while parsing\<close>

text \<open>
  C9.  \<^verbatim>\<open>--fps 2000000 --fps 0\<close>: the first option sets \<^verbatim>\<open>frameDuration\<close> to
  1000000 / 2000000 = 0, and the second, not being positive, evaluates
  \<^verbatim>\<open>1000000 / frameDuration\<close>.  Parsing ends there, with neither of the two exits of
  the \<^verbatim>\<open>switch\<close> and without a configuration.
\<close>

theorem fps_zero_after_huge_fps_divides_by_zero:
  "atoi ''2000000'' = 2000000 \<and> atoi ''0'' = 0
   \<and> switch_opt ''raspi2raspi'' initial_config (CHR ''f'') ''2000000''
       = ([], Next (initial_config\<lparr>fps := 2000000, frameDuration := 0\<rparr>))
   \<and> switch_opt ''raspi2raspi'' (initial_config\<lparr>fps := 2000000, frameDuration := 0\<rparr>)
        (CHR ''f'') ''0'' = ([], Faulted)
   \<and> main ''raspi2raspi'' world_fps_huge_then_zero = ([], Faulted)"
  by (simp add: world_fps_huge_then_zero_def eval_defs)

end
